theory Spec2Isabelle
  imports Complex_Main
begin

unbundle bit_operations_syntax

section \<open>Conventions of the embedding\<close>

text \<open>
  The two converters (\<^verbatim>\<open>android_to_rinex_2.11.py\<close> and \<^verbatim>\<open>android_to_rinex_3.03.py\<close>)
  are embedded function by function. Python floats are read as \<^typ>\<open>real\<close> (no rounding
  error, no infinities, no signed zero), Python's unbounded integers as \<^typ>\<open>int\<close>, strings
  as \<^typ>\<open>string\<close>. An exception that the source does not catch ends the run; it is a
  value \<open>Inl e\<close> of the result type.
\<close>

datatype py_error =
  TypeError | ZeroDivisionError | IndexError | OverflowError | AttributeError | Exception | ValueError

text \<open>Sequencing of computations that can raise: the first exception wins.\<close>

definition rbind :: "py_error + 'a \<Rightarrow> ('a \<Rightarrow> py_error + 'b) \<Rightarrow> py_error + 'b" where
  "rbind r f = (case r of Inl e \<Rightarrow> Inl e | Inr x \<Rightarrow> f x)"

text \<open>
  A field of a \<^verbatim>\<open>Raw\<close> line is \<^verbatim>\<open>None\<close> when its text is empty. \<^verbatim>\<open>float(None)\<close>,
  \<^verbatim>\<open>int(None)\<close> and arithmetic on \<^verbatim>\<open>None\<close> raise \<^verbatim>\<open>TypeError\<close>; \<^verbatim>\<open>int\<close> of a float
  truncates towards zero; \<^verbatim>\<open>round\<close> of a float rounds half to even.
\<close>

definition py_float :: "real option \<Rightarrow> py_error + real" where
  "py_float x = (case x of None \<Rightarrow> Inl TypeError | Some r \<Rightarrow> Inr r)"

definition py_trunc :: "real \<Rightarrow> int" where
  "py_trunc x = (if 0 \<le> x then \<lfloor>x\<rfloor> else \<lceil>x\<rceil>)"

definition py_int :: "real option \<Rightarrow> py_error + int" where
  "py_int x = (case x of None \<Rightarrow> Inl TypeError | Some r \<Rightarrow> Inr (py_trunc r))"

definition py_round :: "real \<Rightarrow> int" where
  "py_round x =
     (let f = \<lfloor>x\<rfloor>; d = x - real_of_int f
      in if d < 1 / 2 then f else if 1 / 2 < d then f + 1 else if even f then f else f + 1)"

section \<open>Text formatting\<close>

text \<open>
  The pieces of \<^verbatim>\<open>str.format\<close> the converters use: decimal digits of a natural number,
  \<^verbatim>\<open>{:<n}\<close> (pad on the right), \<^verbatim>\<open>{:>n}\<close> (pad on the left), \<^verbatim>\<open>{:3d}\<close>, \<^verbatim>\<open>{:02d}\<close> and
  \<^verbatim>\<open>{:.3f}\<close>.
\<close>

definition digit_char :: "nat \<Rightarrow> char" where
  "digit_char n = ''0123456789'' ! n"

fun digits :: "nat \<Rightarrow> string" where
  "digits n = (if n < 10 then [digit_char n] else digits (n div 10) @ [digit_char (n mod 10)])"

declare digits.simps [simp del]

definition ljust :: "nat \<Rightarrow> string \<Rightarrow> string" where
  "ljust n s = s @ replicate (n - length s) CHR '' ''"

definition rjust :: "nat \<Rightarrow> string \<Rightarrow> string" where
  "rjust n s = replicate (n - length s) CHR '' '' @ s"

definition zfill :: "nat \<Rightarrow> string \<Rightarrow> string" where
  "zfill n s = replicate (n - length s) CHR ''0'' @ s"

definition fmt_3d :: "nat \<Rightarrow> string" where
  "fmt_3d n = rjust 3 (digits n)"

definition fmt_02d :: "int \<Rightarrow> string" where
  "fmt_02d n = (if n < 0 then CHR ''-'' # zfill 1 (digits (nat (- n))) else zfill 2 (digits (nat n)))"

definition fmt_3f :: "real \<Rightarrow> string" where
  "fmt_3f x =
     (let m = nat (py_round (\<bar>x\<bar> * 1000))
      in (if x < 0 then ''-'' else []) @ digits (m div 1000) @ ''.'' @ zfill 3 (digits (m mod 1000)))"

definition newline :: char where
  "newline = CHR 0x0A"

section \<open>Dates and times\<close>

text \<open>
  A naive \<^verbatim>\<open>datetime\<close> is the number of microseconds since 0001-01-01 00:00:00, so that
  equality of values is equality of instants, as in Python. The calendar fields follow
  the proleptic Gregorian calendar of the \<^verbatim>\<open>datetime\<close> module.
\<close>

type_synonym datetime = nat

definition US_PER_DAY :: nat where "US_PER_DAY = 86400000000"

definition DATETIME_MAX_US :: nat where "DATETIME_MAX_US = 3652059 * 86400000000"

definition microsecond :: "datetime \<Rightarrow> nat" where "microsecond t = t mod 1000000"
definition second :: "datetime \<Rightarrow> nat" where "second t = (t div 1000000) mod 60"
definition minute :: "datetime \<Rightarrow> nat" where "minute t = (t div 60000000) mod 60"
definition hour :: "datetime \<Rightarrow> nat" where "hour t = (t div 3600000000) mod 24"
definition toordinal :: "datetime \<Rightarrow> nat" where "toordinal t = t div US_PER_DAY + 1"

definition is_leap :: "nat \<Rightarrow> bool" where
  "is_leap y = (y mod 4 = 0 \<and> (y mod 100 \<noteq> 0 \<or> y mod 400 = 0))"

definition days_in_month :: "nat \<Rightarrow> nat \<Rightarrow> nat" where
  "days_in_month y m =
     (if m = 2 then (if is_leap y then 29 else 28)
      else if m = 4 \<or> m = 6 \<or> m = 9 \<or> m = 11 then 30 else 31)"

definition days_before_month :: "nat \<Rightarrow> nat \<Rightarrow> nat" where
  "days_before_month y m = (\<Sum>k\<leftarrow>[1..<m]. days_in_month y k)"

definition ord2ymd :: "nat \<Rightarrow> nat \<times> nat \<times> nat" where
  "ord2ymd ordinal =
     (let n = ordinal - 1;
          n400 = n div 146097; n = n mod 146097;
          n100 = n div 36524; n = n mod 36524;
          n4 = n div 1461; n = n mod 1461;
          n1 = n div 365; n = n mod 365;
          y = n400 * 400 + 1 + n100 * 100 + n4 * 4 + n1
      in if n1 = 4 \<or> n100 = 4 then (y - 1, 12, 31)
         else
           let m = (n + 50) div 32;
               preceding = days_before_month y m
           in if n < preceding then (y, m - 1, n - (preceding - days_in_month y (m - 1)) + 1)
              else (y, m, n - preceding + 1))"

definition year :: "datetime \<Rightarrow> nat" where "year t = fst (ord2ymd (toordinal t))"
definition month :: "datetime \<Rightarrow> nat" where "month t = fst (snd (ord2ymd (toordinal t)))"
definition day :: "datetime \<Rightarrow> nat" where "day t = snd (snd (ord2ymd (toordinal t)))"

definition strftime_directive :: "char \<Rightarrow> datetime \<Rightarrow> string" where
  "strftime_directive d t =
     (if d = CHR ''Y'' then digits (year t)
      else if d = CHR ''y'' then zfill 2 (digits (year t mod 100))
      else if d = CHR ''m'' then zfill 2 (digits (month t))
      else if d = CHR ''d'' then zfill 2 (digits (day t))
      else if d = CHR ''H'' then zfill 2 (digits (hour t))
      else if d = CHR ''M'' then zfill 2 (digits (minute t))
      else if d = CHR ''S'' then zfill 2 (digits (second t))
      else if d = CHR ''f'' then zfill 6 (digits (microsecond t))
      else [CHR ''%'', d])"

fun strftime :: "string \<Rightarrow> datetime \<Rightarrow> string" where
  "strftime [] t = []"
| "strftime [c] t = [c]"
| "strftime (c # d # cs) t =
     (if c = CHR ''%'' then strftime_directive d t @ strftime cs t else c # strftime (d # cs) t)"

text \<open>
  \<^verbatim>\<open>GPSTIME = datetime.datetime(1980, 1, 6)\<close>, whose proleptic ordinal is 722820.
\<close>

definition GPSTIME :: datetime where
  "GPSTIME = 722819 * 86400000000"

text \<open>
  \<^verbatim>\<open>gpstime_to_epoch(week, sow)\<close> is \<^verbatim>\<open>GPSTIME + timedelta(weeks=week, seconds=sow)\<close>. The
  \<^verbatim>\<open>timedelta\<close> constructor splits the float \<^verbatim>\<open>sow\<close> with \<^verbatim>\<open>modf\<close> and rounds the fraction to
  whole microseconds; the sum raises \<^verbatim>\<open>OverflowError\<close> outside the years 1 to 9999 (the
  range of \<^verbatim>\<open>timedelta\<close> itself is wider).
\<close>

definition gpstime_to_epoch :: "int \<Rightarrow> real \<Rightarrow> py_error + datetime" where
  "gpstime_to_epoch week sow =
     (let seconds = py_trunc sow;
          secondsfrac = sow - real_of_int seconds;
          us = int GPSTIME + week * 604800000000 + seconds * 1000000
                 + py_round (secondsfrac * 1000000)
      in if 0 \<le> us \<and> us < int DATETIME_MAX_US then Inr (nat us) else Inl OverflowError)"

text \<open>
  Python indexing of a sequence: a negative index counts from the end, an index out of
  range raises \<^verbatim>\<open>IndexError\<close>. Item assignment \<^verbatim>\<open>xs[i] = v\<close> likewise.
\<close>

definition get_item :: "'a list \<Rightarrow> int \<Rightarrow> py_error + 'a" where
  "get_item xs i =
     (if 0 \<le> i
      then (if i < int (length xs) then Inr (xs ! nat i) else Inl IndexError)
      else (if - int (length xs) \<le> i then Inr (xs ! nat (int (length xs) + i))
            else Inl IndexError))"

definition set_item :: "'a list \<Rightarrow> nat \<Rightarrow> 'a \<Rightarrow> py_error + 'a list" where
  "set_item xs i v = (if i < length xs then Inr (xs[i := v]) else Inl IndexError)"

section \<open>The parsed \<^verbatim>\<open>Raw\<close> line, the options and the diagnostic channel\<close>

text \<open>
  \<^verbatim>\<open>values\<close> is the dictionary built from one \<^verbatim>\<open>Raw\<close> line: one entry per field named in
  the log's header, \<^verbatim>\<open>None\<close> for an empty field. The embedding starts from this
  dictionary (the header is taken to name every field the loop reads) and keeps the
  fields the loop reads.
\<close>

record raw_values =
  State :: "real option"
  FullBiasNanos :: "real option"
  BiasNanos :: "real option"
  TimeNanos :: "real option"
  TimeOffsetNanos :: "real option"
  LeapSecond :: "real option"
  ConstellationType :: "real option"
  CarrierFrequencyHz :: "real option"
  ReceivedSvTimeNanos :: "real option"
  PseudorangeRateMetersPerSecond :: "real option"
  Svid :: "real option"
  AccumulatedDeltaRangeMeters :: "real option"
  AccumulatedDeltaRangeState :: "real option"
  Cn0DbHz :: "real option"

record args =
  skip_edit :: bool
  fix_bias :: bool
  integerize :: bool

text \<open>
  Every \<^verbatim>\<open>sys.stderr.write\<close> of the converters is recorded as one value, carrying the data
  its message is formatted from.
\<close>

datatype diagnostic =
    Invalid_state
  | Frequency_slot_number
  | Constellation_not_supported
  | Constellation_unknown
  | Adr_state_not_valid string
  | Out_of_bounds string real
  | Repeated_entries datetime

section \<open>Constants\<close>

definition SPEED_OF_LIGHT :: real where "SPEED_OF_LIGHT = 299792458"
definition GPS_WEEKSECS :: int where "GPS_WEEKSECS = 604800"
definition NS_TO_S :: real where "NS_TO_S = 1 / 1000000000"
definition S_TO_NS :: real where "S_TO_NS = 1000000000"

definition GPS_L1_FREQ :: real where "GPS_L1_FREQ = 1575420000"
definition GPS_L1_WAVELENGTH :: real where "GPS_L1_WAVELENGTH = SPEED_OF_LIGHT / GPS_L1_FREQ"
definition GPS_L2_FREQ :: real where "GPS_L2_FREQ = 1227600000"
definition GPS_L2_WAVELENGTH :: real where "GPS_L2_WAVELENGTH = SPEED_OF_LIGHT / GPS_L2_FREQ"
definition GPS_L5_FREQ :: real where "GPS_L5_FREQ = 1176450000"
definition GPS_L5_WAVELENGTH :: real where "GPS_L5_WAVELENGTH = SPEED_OF_LIGHT / GPS_L5_FREQ"

definition BDS_L1_FREQ :: real where "BDS_L1_FREQ = 1561098000"
definition BDS_L1_WAVELENGTH :: real where "BDS_L1_WAVELENGTH = SPEED_OF_LIGHT / BDS_L1_FREQ"
definition BDS_L2_FREQ :: real where "BDS_L2_FREQ = 1207140000"
definition BDS_L2_WAVELENGTH :: real where "BDS_L2_WAVELENGTH = SPEED_OF_LIGHT / BDS_L2_FREQ"
definition BDS_L3_FREQ :: real where "BDS_L3_FREQ = 1268520000"
definition BDS_L3_WAVELENGTH :: real where "BDS_L3_WAVELENGTH = SPEED_OF_LIGHT / BDS_L3_FREQ"

definition GAL_E1_FREQ :: real where "GAL_E1_FREQ = 1575420000"
definition GAL_E1_WAVELENGTH :: real where "GAL_E1_WAVELENGTH = SPEED_OF_LIGHT / GAL_E1_FREQ"
definition GAL_E5A_FREQ :: real where "GAL_E5A_FREQ = 1176450000"
definition GAL_E5A_WAVELENGTH :: real where "GAL_E5A_WAVELENGTH = SPEED_OF_LIGHT / GAL_E5A_FREQ"
definition GAL_E5B_FREQ :: real where "GAL_E5B_FREQ = 1207140000"
definition GAL_E5B_WAVELENGTH :: real where "GAL_E5B_WAVELENGTH = SPEED_OF_LIGHT / GAL_E5B_FREQ"
definition GAL_E6_FREQ :: real where "GAL_E6_FREQ = 1278750000"
definition GAL_E6_WAVELENGTH :: real where "GAL_E6_WAVELENGTH = SPEED_OF_LIGHT / GAL_E6_FREQ"

definition GLO_L1_FREQ_BASE :: real where "GLO_L1_FREQ_BASE = 1602000000"
definition GLO_L2_FREQ_BASE :: real where "GLO_L2_FREQ_BASE = 1246000000"
definition GLO_L1_FREQ_STEP :: real where "GLO_L1_FREQ_STEP = 562500"
definition GLO_L2_FREQ_STEP :: real where "GLO_L2_FREQ_STEP = 437500"

definition NUM_NANOSEC_WEEK :: real where "NUM_NANOSEC_WEEK = 604800000000000"
definition NUM_NANOSEC_DAY :: real where "NUM_NANOSEC_DAY = 86400000000000"
definition NUM_NANOSEC_100MILL :: real where "NUM_NANOSEC_100MILL = 100000000"
definition MAX_VALUE :: int where "MAX_VALUE = 8388608"

definition STATE_CODE_LOCK :: int where "STATE_CODE_LOCK = 1"
definition STATE_TOW_DECODED :: int where "STATE_TOW_DECODED = 8"

definition CONSTELLATION_GPS :: int where "CONSTELLATION_GPS = 1"
definition CONSTELLATION_SBAS :: int where "CONSTELLATION_SBAS = 2"
definition CONSTELLATION_GLONASS :: int where "CONSTELLATION_GLONASS = 3"
definition CONSTELLATION_QZSS :: int where "CONSTELLATION_QZSS = 4"
definition CONSTELLATION_BEIDOU :: int where "CONSTELLATION_BEIDOU = 5"
definition CONSTELLATION_GALILEO :: int where "CONSTELLATION_GALILEO = 6"

definition ADR_STATE_VALID :: int where "ADR_STATE_VALID = 1"

definition GLN_LIST :: "int list" where
  "GLN_LIST = [1, -4, 5, 6, 1, -4, 5, 6, -2, -7, 0, -1, -2, -7, 0, -1, -6, -3, 3, 2, 4, -3, 3, 2]"

section \<open>Functions of \<^verbatim>\<open>android_to_rinex_3.03.py\<close>\<close>

definition get_glo_L1 :: "int \<Rightarrow> real" where
  "get_glo_L1 chel = SPEED_OF_LIGHT / (GLO_L1_FREQ_BASE + real_of_int chel * GLO_L1_FREQ_STEP)"

definition get_glo_L2 :: "int \<Rightarrow> real" where
  "get_glo_L2 chel = SPEED_OF_LIGHT / (GLO_L2_FREQ_BASE + real_of_int chel * GLO_L2_FREQ_STEP)"

text \<open>
  \<^verbatim>\<open>get_correction_adr(psr, adr_cycles, wave_length)\<close>: the float division by
  \<^verbatim>\<open>wave_length\<close> raises \<^verbatim>\<open>ZeroDivisionError\<close> at zero.
\<close>

definition get_correction_adr :: "real \<Rightarrow> real \<Rightarrow> real \<Rightarrow> py_error + real" where
  "get_correction_adr psr adr_cycles wave_length =
     (if wave_length = 0 then Inl ZeroDivisionError
      else
        let adr_rolls = (psr / wave_length + adr_cycles) / real_of_int MAX_VALUE;
            adr_rolls = (if adr_rolls \<le> 0 then adr_rolls - 0.5 else adr_rolls + 0.5)
        in Inr (- (adr_cycles - (real_of_int MAX_VALUE * adr_rolls))))"

text \<open>
  The value of the variable \<^verbatim>\<open>adr_rolls\<close> of \<^verbatim>\<open>get_correction_adr\<close> when the function
  returns: the ratio with its half-unit bias, the wrap count that the function multiplies
  by the modulus.
\<close>

definition adr_rolls :: "real \<Rightarrow> real \<Rightarrow> real \<Rightarrow> real" where
  "adr_rolls psr adr_cycles wave_length =
     (let r = (psr / wave_length + adr_cycles) / real_of_int MAX_VALUE
      in if r \<le> 0 then r - 0.5 else r + 0.5)"

definition check_state :: "int \<Rightarrow> py_error + bool" where
  "check_state state =
     (if state AND STATE_CODE_LOCK = 0 then Inl Exception
      else if state AND STATE_TOW_DECODED = 0 then Inl Exception
      else Inr True)"

definition check_adr_state :: "int \<Rightarrow> py_error + bool" where
  "check_adr_state state =
     (if state AND ADR_STATE_VALID = 0 then Inl ValueError else Inr True)"

text \<open>
  \<^verbatim>\<open>end_header(first_epoch)\<close>: the time of first observation, then fixed text.
\<close>

definition end_header :: "datetime \<Rightarrow> string" where
  "end_header first_epoch =
     strftime (''  %Y    %m    %d    %H    %M    %S.%f                 TIME OF FIRST OBS'' @ [newline])
       first_epoch
     @ '' 24 R01  1 R02 -4 R03  5 R04  6 R05  1 R06 -4 R07  5 R08  6 GLONASS SLOT / FRQ #'' @ [newline]
     @ ''    R09 -2 R10 -5 R11  0 R12 -1 R13 -2 R14 -7 R15  0 R16 -1 GLONASS SLOT / FRQ #'' @ [newline]
     @ ''    R17  4 R18 -3 R19  3 R20  2 R21  4 R22 -3 R23  3 R24  2 GLONASS SLOT / FRQ #'' @ [newline]
     @ ''G L1C                                                       SYS / PHASE SHIFT'' @ [newline]
     @ ''G L5Q -0.25000                                              SYS / PHASE SHIFT'' @ [newline]
     @ ''R L1C                                                       SYS / PHASE SHIFT'' @ [newline]
     @ ''E L1B                                                       SYS / PHASE SHIFT'' @ [newline]
     @ ''E L1C +0.50000                                              SYS / PHASE SHIFT'' @ [newline]
     @ ''E L5Q -0.25000                                              SYS / PHASE SHIFT'' @ [newline]
     @ ''C L2I                                                       SYS / PHASE SHIFT'' @ [newline]
     @ ''J L1C                                                       SYS / PHASE SHIFT'' @ [newline]
     @ ''J L5Q -0.25000                                              SYS / PHASE SHIFT'' @ [newline]
     @ '' C1C    0.000 C1P    0.000 C2C    0.000 C2P    0.000        GLONASS COD/PHS/BIS'' @ [newline]
     @ ljust 60 '' '' @ ''END OF HEADER'' @ [newline]"

subsection \<open>The class \<^verbatim>\<open>RinexBatch\<close>\<close>

record RinexBatch =
  epoch :: datetime
  svids :: "string list"
  c1 :: "string list"
  c2 :: "string list"
  l1 :: "string list"
  l2 :: "string list"
  s1 :: "string list"
  s2 :: "string list"
  d1 :: "string list"
  d2 :: "string list"

definition RinexBatch_init :: "datetime \<Rightarrow> RinexBatch" where
  "RinexBatch_init e =
     \<lparr>epoch = e, svids = [], c1 = [], c2 = [], l1 = [], l2 = [], s1 = [], s2 = [], d1 = [], d2 = []\<rparr>"

text \<open>
  The search loop of \<^verbatim>\<open>add\<close> (\<^verbatim>\<open>for id in self.svids\<close>, with the counter \<^verbatim>\<open>i\<close>): the index of
  the first entry equal to \<^verbatim>\<open>svid\<close>.
\<close>

fun find_svid :: "string \<Rightarrow> string list \<Rightarrow> nat \<Rightarrow> nat option" where
  "find_svid svid [] i = None"
| "find_svid svid (x # xs) i = (if svid = x then Some i else find_svid svid xs (i + 1))"

definition is_primary :: "string \<Rightarrow> bool" where
  "is_primary codeType = (codeType = ''L1'' \<or> codeType = ''E1'' \<or> codeType = ''B1'')"

definition add :: "RinexBatch \<Rightarrow> string \<Rightarrow> string \<Rightarrow> string \<Rightarrow> string \<Rightarrow> string \<Rightarrow> string
    \<Rightarrow> py_error + RinexBatch" where
  "add b codeType svid c1v s1v l1v d1v =
     (case find_svid svid (svids b) 0 of
        Some i \<Rightarrow>
          if is_primary codeType then
            rbind (set_item (c1 b) i c1v) (\<lambda>c1'.
            rbind (set_item (s1 b) i s1v) (\<lambda>s1'.
            rbind (set_item (l1 b) i l1v) (\<lambda>l1'.
            rbind (set_item (d1 b) i d1v) (\<lambda>d1'.
              Inr (b\<lparr>c1 := c1', s1 := s1', l1 := l1', d1 := d1'\<rparr>)))))
          else
            rbind (set_item (c2 b) i c1v) (\<lambda>c2'.
            rbind (set_item (s2 b) i s1v) (\<lambda>s2'.
            rbind (set_item (l2 b) i l1v) (\<lambda>l2'.
            rbind (set_item (d2 b) i d1v) (\<lambda>d2'.
              Inr (b\<lparr>c2 := c2', s2 := s2', l2 := l2', d2 := d2'\<rparr>)))))
      | None \<Rightarrow>
          if is_primary codeType then
            Inr (b\<lparr>svids := svids b @ [svid],
                   c1 := c1 b @ [c1v], s1 := s1 b @ [s1v], l1 := l1 b @ [l1v], d1 := d1 b @ [d1v],
                   c2 := c2 b @ [[]], s2 := s2 b @ [[]], l2 := l2 b @ [[]], d2 := d2 b @ [[]]\<rparr>)
          else
            Inr (b\<lparr>svids := svids b @ [svid],
                   c1 := c1 b @ [[]], s1 := s1 b @ [[]], l1 := l1 b @ [[]], d1 := d1 b @ [[]],
                   c2 := c2 b @ [c1v], s2 := s2 b @ [s1v], l2 := l2 b @ [l1v], d2 := d2 b @ [d1v]\<rparr>))"

text \<open>
  The first loop of \<^verbatim>\<open>print\<close>: \<^verbatim>\<open>for sat in self.svids: if self.svids.count(sat) > 1\<close>.
\<close>

fun repeated_entries :: "string list \<Rightarrow> string list \<Rightarrow> bool" where
  "repeated_entries [] all = False"
| "repeated_entries (sat # rest) all =
     (if 1 < count_list all sat then True else repeated_entries rest all)"

text \<open>One formatted data line of satellite \<open>i\<close>, with its final line feed.\<close>

definition data_line :: "RinexBatch \<Rightarrow> nat \<Rightarrow> py_error + string" where
  "data_line b i =
     rbind (get_item (c1 b) (int i)) (\<lambda>c1v.
     rbind (get_item (l1 b) (int i)) (\<lambda>l1v.
     rbind (get_item (d1 b) (int i)) (\<lambda>d1v.
     rbind (get_item (s1 b) (int i)) (\<lambda>s1v.
     rbind (get_item (c2 b) (int i)) (\<lambda>c2v.
     rbind (get_item (l2 b) (int i)) (\<lambda>l2v.
     rbind (get_item (d2 b) (int i)) (\<lambda>d2v.
     rbind (get_item (s2 b) (int i)) (\<lambda>s2v.
       Inr (ljust 5 (svids b ! i) @ rjust 12 c1v @ ''  '' @ rjust 14 l1v @ ''  '' @ rjust 14 d1v
            @ ''  '' @ rjust 14 s1v @ ''  '' @ rjust 14 c2v @ ''  '' @ rjust 14 l2v
            @ ''  '' @ rjust 14 d2v @ ''  '' @ rjust 14 s2v @ [newline])))))))))"

text \<open>
  One of the five loops \<^verbatim>\<open>for i in range(len(self.svids)): if 'G' in self.svids[i]: data += ...\<close>,
  over the indices still to visit.
\<close>

fun print_block :: "char \<Rightarrow> RinexBatch \<Rightarrow> nat list \<Rightarrow> string \<Rightarrow> py_error + string" where
  "print_block ch b [] data = Inr data"
| "print_block ch b (i # rest) data =
     (if ch \<in> set (svids b ! i)
      then rbind (data_line b i) (\<lambda>line. print_block ch b rest (data @ line))
      else print_block ch b rest data)"

text \<open>
  \<^verbatim>\<open>print\<close> returns the text of the epoch; the model returns it with what was written to
  \<^verbatim>\<open>sys.stderr\<close>.
\<close>

definition print :: "RinexBatch \<Rightarrow> py_error + (diagnostic list \<times> string)" where
  "print b =
     (if repeated_entries (svids b) (svids b) then Inr ([Repeated_entries (epoch b)], [])
      else
        let hdr = strftime (''> %Y %m %d %H %M %S.%f   0'' @ fmt_3d (length (svids b))) (epoch b);
            idx = [0..<length (svids b)]
        in rbind (print_block CHR ''G'' b idx []) (\<lambda>data.
           rbind (print_block CHR ''C'' b idx data) (\<lambda>data.
           rbind (print_block CHR ''E'' b idx data) (\<lambda>data.
           rbind (print_block CHR ''R'' b idx data) (\<lambda>data.
           rbind (print_block CHR ''J'' b idx data) (\<lambda>data.
             Inr ([], hdr @ [newline] @ data)))))))"

subsection \<open>The main loop of \<^verbatim>\<open>android_to_rinex_3.03.py\<close>\<close>

text \<open>
  The variables that live across iterations: \<^verbatim>\<open>first_epoch\<close> (\<^verbatim>\<open>None\<close>, then \<^verbatim>\<open>False\<close>),
  \<^verbatim>\<open>rinex_batch\<close>, \<^verbatim>\<open>fullbiasnanos\<close>, and the two streams: what was written to \<^verbatim>\<open>out\<close> and
  to \<^verbatim>\<open>sys.stderr\<close>, one entry per call of \<^verbatim>\<open>write\<close>.
\<close>

record 'batch pipeline =
  first_epoch :: "bool option"
  rinex_batch :: "'batch option"
  fullbiasnanos :: "real option"
  out :: "string list"
  stderr :: "diagnostic list"

text \<open>
  \<^verbatim>\<open>try: check_state(int(values['State'])) except Exception\<close>: every exception, also the
  \<^verbatim>\<open>TypeError\<close> of an empty field, is caught and reported; nothing else happens.
\<close>

definition sync_diagnostics :: "raw_values \<Rightarrow> diagnostic list" where
  "sync_diagnostics v =
     (case rbind (py_int (State v)) check_state of Inl e \<Rightarrow> [Invalid_state] | Inr ok \<Rightarrow> [])"

definition update_fullbiasnanos :: "args \<Rightarrow> real option \<Rightarrow> raw_values \<Rightarrow> py_error + real" where
  "update_fullbiasnanos a fb v =
     (case fb of
        None \<Rightarrow> py_float (FullBiasNanos v)
      | Some x \<Rightarrow> if \<not> fix_bias a then py_float (FullBiasNanos v) else Inr x)"

definition gpsweek :: "real \<Rightarrow> int" where
  "gpsweek fbn = \<lfloor>- fbn * NS_TO_S / real_of_int GPS_WEEKSECS\<rfloor>"

definition gpssow :: "real \<Rightarrow> raw_values \<Rightarrow> py_error + real" where
  "gpssow fbn v =
     rbind (py_float (TimeNanos v)) (\<lambda>tn.
     rbind (py_float (BiasNanos v)) (\<lambda>bn.
       let local_est_GPS_time = tn - (fbn + bn)
       in Inr (local_est_GPS_time * NS_TO_S - real_of_int (gpsweek fbn * GPS_WEEKSECS))))"

definition frac :: "args \<Rightarrow> real \<Rightarrow> real" where
  "frac a sow = (if integerize a then sow - real_of_int (py_trunc (sow + 0.5)) else 0)"

text \<open>
  The header's end is written at the first epoch; a batch whose epoch differs from the
  record's is printed and replaced.
\<close>

definition write_end_header :: "RinexBatch pipeline \<Rightarrow> datetime \<Rightarrow> RinexBatch pipeline" where
  "write_end_header st e =
     (case first_epoch st of
        None \<Rightarrow> st\<lparr>out := out st @ [end_header e], first_epoch := Some False\<rparr>
      | Some f \<Rightarrow> st)"

definition new_batch :: "RinexBatch pipeline \<Rightarrow> datetime \<Rightarrow> py_error + RinexBatch pipeline" where
  "new_batch st e =
     (case rinex_batch st of
        None \<Rightarrow> Inr (st\<lparr>rinex_batch := Some (RinexBatch_init e)\<rparr>)
      | Some b \<Rightarrow>
          if epoch b \<noteq> e then
            rbind (print b) (\<lambda>(warnings, text).
              Inr (st\<lparr>stderr := stderr st @ warnings, out := out st @ [text],
                      rinex_batch := Some (RinexBatch_init e)\<rparr>))
          else Inr st)"

definition week_number_nanos :: "real \<Rightarrow> real" where
  "week_number_nanos fbn = real_of_int \<lfloor>- fbn / NUM_NANOSEC_WEEK\<rfloor> * NUM_NANOSEC_WEEK"

definition day_number_nanos :: "real \<Rightarrow> real" where
  "day_number_nanos fbn = real_of_int \<lfloor>- fbn / NUM_NANOSEC_DAY\<rfloor> * NUM_NANOSEC_DAY"

definition millSec_number_nanos :: "real \<Rightarrow> real" where
  "millSec_number_nanos fbn = real_of_int \<lfloor>- fbn / NUM_NANOSEC_100MILL\<rfloor> * NUM_NANOSEC_100MILL"

definition tRx_GNSS :: "raw_values \<Rightarrow> py_error + real" where
  "tRx_GNSS v =
     rbind (py_float (TimeNanos v)) (\<lambda>tn.
     rbind (py_float (TimeOffsetNanos v)) (\<lambda>ton.
     rbind (py_float (FullBiasNanos v)) (\<lambda>fb.
     rbind (py_float (BiasNanos v)) (\<lambda>bn.
       Inr (tn + ton - fb - bn)))))"

text \<open>
  \<^verbatim>\<open>if values['LeapSecond'] is None: values['LeapSecond'] = "0"\<close>, read back with \<^verbatim>\<open>int\<close>.
\<close>

definition leap_second :: "raw_values \<Rightarrow> int" where
  "leap_second v = (case LeapSecond v of None \<Rightarrow> 0 | Some x \<Rightarrow> py_trunc x)"

definition tRx_nanos :: "real \<Rightarrow> raw_values \<Rightarrow> py_error + real" where
  "tRx_nanos fbn v =
     rbind (tRx_GNSS v) (\<lambda>t.
     rbind (py_int (ConstellationType v)) (\<lambda>c.
       if c = CONSTELLATION_GPS then Inr (t - week_number_nanos fbn)
       else if c = CONSTELLATION_GLONASS then
         Inr (t - day_number_nanos fbn + real_of_int (3 * 3600 - leap_second v) * S_TO_NS)
       else if c = CONSTELLATION_GALILEO then
         rbind (py_float (CarrierFrequencyHz v)) (\<lambda>f.
           if 1500000000 < f then Inr (t - millSec_number_nanos fbn)
           else Inr (t - week_number_nanos fbn))
       else if c = CONSTELLATION_BEIDOU then Inr (t - week_number_nanos fbn - 14 * S_TO_NS)
       else Inr (t - week_number_nanos fbn)))"

text \<open>The travel time before and after the week-rollover guard, and the range.\<close>

definition tau_raw :: "real \<Rightarrow> raw_values \<Rightarrow> py_error + real" where
  "tau_raw fbn v =
     rbind (tRx_nanos fbn v) (\<lambda>trx.
     rbind (py_float (ReceivedSvTimeNanos v)) (\<lambda>ttx.
       let tRxSeconds = trx * NS_TO_S; tTxSeconds = ttx * NS_TO_S
       in Inr (tRxSeconds - tTxSeconds)))"

definition tau :: "real \<Rightarrow> raw_values \<Rightarrow> py_error + real" where
  "tau fbn v =
     rbind (tau_raw fbn v) (\<lambda>t. Inr (if t < 0 then t + real_of_int GPS_WEEKSECS else t))"

definition pseudorange :: "args \<Rightarrow> real \<Rightarrow> real \<Rightarrow> raw_values \<Rightarrow> py_error + real" where
  "pseudorange a fbn fr v =
     rbind (tau fbn v) (\<lambda>t.
       let c = t * SPEED_OF_LIGHT
       in if integerize a
          then rbind (py_float (PseudorangeRateMetersPerSecond v)) (\<lambda>rate. Inr (c - fr * rate))
          else Inr c)"

text \<open>
  The body of one band branch: the phase in cycles, its correction, and the Doppler. The
  branches differ in the band code and the wavelengths (the E6 branch divides the range
  rate by the E5b wavelength).
\<close>

definition band :: "string \<Rightarrow> real \<Rightarrow> real \<Rightarrow> real \<Rightarrow> raw_values
    \<Rightarrow> py_error + (string \<times> real \<times> real)" where
  "band codeType wl wl_doppler psr v =
     rbind (py_float (AccumulatedDeltaRangeMeters v)) (\<lambda>adr.
     rbind (get_correction_adr psr (adr / wl) wl) (\<lambda>l.
     rbind (py_float (PseudorangeRateMetersPerSecond v)) (\<lambda>rate.
       Inr (codeType, l, - rate / wl_doppler))))"

text \<open>
  \<^verbatim>\<open>if values['CarrierFrequencyHz'] is None: values['CarrierFrequencyHz'] = "2000e6"\<close>.
\<close>

definition carrier_frequency :: "raw_values \<Rightarrow> real" where
  "carrier_frequency v = (case CarrierFrequencyHz v of None \<Rightarrow> 2000000000 | Some f \<Rightarrow> f)"

text \<open>
  The constellation branches: \<open>Inr (Inl d)\<close> is a \<^verbatim>\<open>continue\<close> after writing \<open>d\<close>,
  \<open>Inr (Inr (svid, codeType, l1, d1))\<close> the observable. The channel of a GLONASS satellite
  is read from \<^verbatim>\<open>GLN_LIST[prn-1]\<close> only in a band branch.
\<close>

definition classify :: "real \<Rightarrow> raw_values
    \<Rightarrow> py_error + (diagnostic + (string \<times> string \<times> real \<times> real))" where
  "classify psr v =
     rbind (py_int (Svid v)) (\<lambda>prn.
     rbind (py_int (ConstellationType v)) (\<lambda>c.
       let f = carrier_frequency v;
           obs = (\<lambda>svid r. rbind r (\<lambda>(codeType, l, d). Inr (Inr (svid, codeType, l, d))))
       in
       if c = CONSTELLATION_GPS then
         obs (''G'' @ fmt_02d prn)
           (if 1500000000 < f then band ''L1'' GPS_L1_WAVELENGTH GPS_L1_WAVELENGTH psr v
            else if 1200000000 < f then band ''L2'' GPS_L2_WAVELENGTH GPS_L2_WAVELENGTH psr v
            else if 1100000000 < f then band ''L5'' GPS_L5_WAVELENGTH GPS_L5_WAVELENGTH psr v
            else Inr ([], 0, 0))
       else if c = CONSTELLATION_GLONASS then
         if 93 \<le> prn then Inr (Inl Frequency_slot_number)
         else
           obs (''R'' @ fmt_02d prn)
             (if 1500000000 < f then
                rbind (get_item GLN_LIST (prn - 1)) (\<lambda>chel.
                  band ''L1'' (get_glo_L1 chel) (get_glo_L1 chel) psr v)
              else if 1200000000 < f then
                rbind (get_item GLN_LIST (prn - 1)) (\<lambda>chel.
                  band ''L2'' (get_glo_L2 chel) (get_glo_L2 chel) psr v)
              else Inr ([], 0, 0))
       else if c = CONSTELLATION_GALILEO then
         obs (''E'' @ fmt_02d prn)
           (if 1500000000 < f then band ''E1'' GAL_E1_WAVELENGTH GAL_E1_WAVELENGTH psr v
            else if 1250000000 < f then band ''E6'' GAL_E6_WAVELENGTH GAL_E5B_WAVELENGTH psr v
            else if 1200000000 < f then band ''E5b'' GAL_E5B_WAVELENGTH GAL_E5B_WAVELENGTH psr v
            else if 1100000000 < f then band ''E5a'' GAL_E5A_WAVELENGTH GAL_E5A_WAVELENGTH psr v
            else Inr ([], 0, 0))
       else if c = CONSTELLATION_BEIDOU then
         obs (''C'' @ fmt_02d prn)
           (if 1500000000 < f then band ''B1'' BDS_L1_WAVELENGTH BDS_L1_WAVELENGTH psr v
            else if 1250000000 < f then band ''B3'' BDS_L3_WAVELENGTH BDS_L3_WAVELENGTH psr v
            else if 1100000000 < f then band ''B2'' BDS_L2_WAVELENGTH BDS_L2_WAVELENGTH psr v
            else Inr ([], 0, 0))
       else if c = CONSTELLATION_QZSS then Inr (Inl Constellation_not_supported)
       else if c = CONSTELLATION_SBAS then Inr (Inl Constellation_not_supported)
       else Inr (Inl Constellation_unknown)))"

text \<open>
  \<^verbatim>\<open>try: check_adr_state(...) except ValueError\<close>: only the \<^verbatim>\<open>ValueError\<close> of
  \<^verbatim>\<open>check_adr_state\<close> is caught (the phase becomes 0); the \<^verbatim>\<open>TypeError\<close> of an empty field
  is not. Then the signal strength is read and the observable stored.
\<close>

definition store :: "RinexBatch pipeline \<Rightarrow> raw_values \<Rightarrow> real \<Rightarrow> string \<Rightarrow> string \<Rightarrow> real
    \<Rightarrow> real \<Rightarrow> py_error + RinexBatch pipeline" where
  "store st v psr svid codeType l d =
     rbind (py_int (AccumulatedDeltaRangeState v)) (\<lambda>adr_state.
       let (warnings, l) =
             (case check_adr_state adr_state of
                Inl e \<Rightarrow> ([Adr_state_not_valid svid], 0)
              | Inr ok \<Rightarrow> ([], l))
       in
       rbind (py_float (Cn0DbHz v)) (\<lambda>s.
         case rinex_batch st of
           None \<Rightarrow> Inl AttributeError
         | Some b \<Rightarrow>
             rbind (add b codeType svid (fmt_3f psr) (fmt_3f s) (fmt_3f l) (fmt_3f d)) (\<lambda>b'.
               Inr (st\<lparr>stderr := stderr st @ warnings, rinex_batch := Some b'\<rparr>))))"

text \<open>One iteration of the loop, for a \<^verbatim>\<open>Raw\<close> line with the expected number of fields.\<close>

definition step :: "args \<Rightarrow> RinexBatch pipeline \<Rightarrow> raw_values \<Rightarrow> py_error + RinexBatch pipeline" where
  "step a st v =
     (let st = st\<lparr>stderr := stderr st @ sync_diagnostics v\<rparr>
      in
      rbind (update_fullbiasnanos a (fullbiasnanos st) v) (\<lambda>fbn.
        let st = st\<lparr>fullbiasnanos := Some fbn\<rparr>
        in
        rbind (gpssow fbn v) (\<lambda>sow.
          let fr = frac a sow
          in
          rbind (gpstime_to_epoch (gpsweek fbn) (sow - fr)) (\<lambda>e.
          rbind (new_batch (write_end_header st e) e) (\<lambda>st.
          rbind (pseudorange a fbn fr v) (\<lambda>psr.
          rbind (classify psr v) (\<lambda>r.
            case r of
              Inl d \<Rightarrow> Inr (st\<lparr>stderr := stderr st @ [d]\<rparr>)
            | Inr (svid, codeType, l, d) \<Rightarrow> store st v psr svid codeType l d)))))))"

text \<open>The loop over the lines, and the last \<^verbatim>\<open>print\<close> after it.\<close>

fun steps :: "args \<Rightarrow> RinexBatch pipeline \<Rightarrow> raw_values list \<Rightarrow> py_error + RinexBatch pipeline" where
  "steps a st [] = Inr st"
| "steps a st (v # vs) = rbind (step a st v) (\<lambda>st'. steps a st' vs)"

definition pipeline_init :: "'batch pipeline" where
  "pipeline_init =
     \<lparr>first_epoch = None, rinex_batch = None, fullbiasnanos = None, out = [], stderr = []\<rparr>"

definition run :: "args \<Rightarrow> raw_values list \<Rightarrow> py_error + RinexBatch pipeline" where
  "run a vs =
     rbind (steps a pipeline_init vs) (\<lambda>st.
       case rinex_batch st of
         None \<Rightarrow> Inl AttributeError
       | Some b \<Rightarrow>
           rbind (print b) (\<lambda>(warnings, text).
             Inr (st\<lparr>stderr := stderr st @ warnings, out := out st @ [text]\<rparr>)))"

section \<open>Functions of \<^verbatim>\<open>android_to_rinex_2.11.py\<close>\<close>

text \<open>
  The legacy converter shares \<^verbatim>\<open>check_state\<close>, \<^verbatim>\<open>gpstime_to_epoch\<close>, the clock
  computation and the constants with the other one (\<^verbatim>\<open>GPS_L1_FREQ = 154.0 * 10.23e6\<close> is the
  same frequency). What differs carries the suffix \<open>_211\<close>.
\<close>

definition end_header_211 :: "datetime \<Rightarrow> string" where
  "end_header_211 t =
     strftime (''  %Y    %m    %d    %H    %M    %S.%f                 TIME OF FIRST OBS'' @ [newline]) t
     @ ljust 60 '' '' @ ''END OF HEADER'' @ [newline]"

record RinexBatch_211 =
  epoch_211 :: datetime
  svids_211 :: "string list"
  c1_211 :: "real list"
  l1_211 :: "real list"
  s1_211 :: "real option list"
  d1_211 :: "real list"

definition RinexBatch_init_211 :: "datetime \<Rightarrow> RinexBatch_211" where
  "RinexBatch_init_211 e =
     \<lparr>epoch_211 = e, svids_211 = [], c1_211 = [], l1_211 = [], s1_211 = [], d1_211 = []\<rparr>"

definition add_211 :: "RinexBatch_211 \<Rightarrow> string \<Rightarrow> real \<Rightarrow> real option \<Rightarrow> real \<Rightarrow> real
    \<Rightarrow> RinexBatch_211" where
  "add_211 b svid c1v s1v l1v d1v =
     b\<lparr>svids_211 := svids_211 b @ [svid], c1_211 := c1_211 b @ [c1v],
       s1_211 := s1_211 b @ [s1v], l1_211 := l1_211 b @ [l1v], d1_211 := d1_211 b @ [d1v]\<rparr>"

text \<open>\<^verbatim>\<open>{0:14.3f}\<close>; formatting \<^verbatim>\<open>None\<close> with it raises \<^verbatim>\<open>TypeError\<close>.\<close>

definition fmt_14_3f :: "real \<Rightarrow> string" where
  "fmt_14_3f x = rjust 14 (fmt_3f x)"

definition data_line_211 :: "RinexBatch_211 \<Rightarrow> nat \<Rightarrow> py_error + string" where
  "data_line_211 b i =
     rbind (get_item (c1_211 b) (int i)) (\<lambda>c1v.
     rbind (get_item (s1_211 b) (int i)) (\<lambda>s1o.
     rbind (get_item (l1_211 b) (int i)) (\<lambda>l1v.
     rbind (get_item (d1_211 b) (int i)) (\<lambda>d1v.
     rbind (py_float s1o) (\<lambda>s1v.
       Inr (fmt_14_3f c1v @ ''  '' @ fmt_14_3f s1v @ ''  '' @ fmt_14_3f l1v @ ''  ''
            @ fmt_14_3f d1v @ [newline]))))))"

text \<open>
  The loop of \<^verbatim>\<open>print\<close> over the indices still to visit, with the epoch line \<open>hdr\<close>
  (\<^verbatim>\<open>b\<close> in the source) and the data lines collected so far.
\<close>

fun print_loop_211 :: "RinexBatch_211 \<Rightarrow> nat list \<Rightarrow> string \<Rightarrow> string
    \<Rightarrow> py_error + (string \<times> string)" where
  "print_loop_211 b [] hdr data = Inr (hdr, data)"
| "print_loop_211 b (i # rest) hdr data =
     (let hdr = (if 0 < i \<and> i mod 12 = 0 then hdr @ [newline] @ ljust 32 '' '' else hdr);
          hdr = hdr @ svids_211 b ! i
      in rbind (data_line_211 b i) (\<lambda>line. print_loop_211 b rest hdr (data @ line)))"

definition print_211 :: "RinexBatch_211 \<Rightarrow> py_error + (diagnostic list \<times> string)" where
  "print_211 b =
     (if repeated_entries (svids_211 b) (svids_211 b)
      then Inr ([Repeated_entries (epoch_211 b)], [])
      else
        let hdr = strftime ('' %y %m %d %H %M %S.%f   0'' @ fmt_3d (length (svids_211 b)))
                    (epoch_211 b)
        in rbind (print_loop_211 b [0..<length (svids_211 b)] hdr []) (\<lambda>(hdr, data).
             Inr ([], hdr @ [newline] @ data)))"

subsection \<open>The main loop of \<^verbatim>\<open>android_to_rinex_2.11.py\<close>\<close>

definition write_end_header_211 :: "RinexBatch_211 pipeline \<Rightarrow> datetime \<Rightarrow> RinexBatch_211 pipeline" where
  "write_end_header_211 st e =
     (case first_epoch st of
        None \<Rightarrow> st\<lparr>out := out st @ [end_header_211 e], first_epoch := Some False\<rparr>
      | Some f \<Rightarrow> st)"

definition new_batch_211 :: "RinexBatch_211 pipeline \<Rightarrow> datetime
    \<Rightarrow> py_error + RinexBatch_211 pipeline" where
  "new_batch_211 st e =
     (case rinex_batch st of
        None \<Rightarrow> Inr (st\<lparr>rinex_batch := Some (RinexBatch_init_211 e)\<rparr>)
      | Some b \<Rightarrow>
          if epoch_211 b \<noteq> e then
            rbind (print_211 b) (\<lambda>(warnings, text).
              Inr (st\<lparr>stderr := stderr st @ warnings, out := out st @ [text],
                      rinex_batch := Some (RinexBatch_init_211 e)\<rparr>))
          else Inr st)"

text \<open>
  \<^verbatim>\<open>if values['TimeOffsetNanos'] is None: values['TimeOffsetNanos'] = 0.0\<close>; the reception
  time is the time of week less this offset.
\<close>

definition time_offset_nanos_211 :: "raw_values \<Rightarrow> real" where
  "time_offset_nanos_211 v = (case TimeOffsetNanos v of None \<Rightarrow> 0 | Some x \<Rightarrow> x)"

definition tau_raw_211 :: "real \<Rightarrow> raw_values \<Rightarrow> py_error + real" where
  "tau_raw_211 sow v =
     (let tRxSeconds = sow - time_offset_nanos_211 v * NS_TO_S
      in rbind (py_float (ReceivedSvTimeNanos v)) (\<lambda>ttx.
           let tTxSeconds = ttx * NS_TO_S in Inr (tRxSeconds - tTxSeconds)))"

definition tau_211 :: "real \<Rightarrow> raw_values \<Rightarrow> py_error + real" where
  "tau_211 sow v =
     rbind (tau_raw_211 sow v) (\<lambda>t. Inr (if t < 0 then t + real_of_int GPS_WEEKSECS else t))"

definition pseudorange_211 :: "args \<Rightarrow> real \<Rightarrow> real \<Rightarrow> raw_values \<Rightarrow> py_error + real" where
  "pseudorange_211 a sow fr v =
     rbind (tau_211 sow v) (\<lambda>t.
       let c = t * SPEED_OF_LIGHT
       in if integerize a
          then rbind (py_float (PseudorangeRateMetersPerSecond v)) (\<lambda>rate. Inr (c - fr * rate))
          else Inr c)"

text \<open>
  The constellation is compared as a float (\<^verbatim>\<open>None\<close> equals no constant), the GLONASS slot
  test reads the float \<^verbatim>\<open>values['Svid']\<close>.
\<close>

definition svid_211 :: "raw_values \<Rightarrow> py_error + (diagnostic + string)" where
  "svid_211 v =
     rbind (py_int (Svid v)) (\<lambda>prn.
       let c = ConstellationType v
       in
       if c = Some (real_of_int CONSTELLATION_GPS) then Inr (Inr (''G'' @ fmt_02d prn))
       else if c = Some (real_of_int CONSTELLATION_GLONASS) then
         rbind (py_float (Svid v)) (\<lambda>s.
           if 93 \<le> s then Inr (Inl Frequency_slot_number)
           else Inr (Inr (''R'' @ fmt_02d prn)))
       else if c = Some (real_of_int CONSTELLATION_GALILEO) then Inr (Inr (''E'' @ fmt_02d prn))
       else if c = Some (real_of_int CONSTELLATION_BEIDOU) then Inr (Inr (''C'' @ fmt_02d prn))
       else if c = Some (real_of_int CONSTELLATION_QZSS) then Inr (Inl Constellation_not_supported)
       else if c = Some (real_of_int CONSTELLATION_SBAS) then Inr (Inl Constellation_not_supported)
       else Inr (Inl Constellation_unknown))"

definition store_211 :: "args \<Rightarrow> RinexBatch_211 pipeline \<Rightarrow> raw_values \<Rightarrow> real \<Rightarrow> string
    \<Rightarrow> py_error + RinexBatch_211 pipeline" where
  "store_211 a st v psr svid =
     (if \<not> skip_edit a \<and> (40000000 < psr \<or> psr < 10000000)
      then Inr (st\<lparr>stderr := stderr st @ [Out_of_bounds svid psr]\<rparr>)
      else
        rbind (py_float (AccumulatedDeltaRangeMeters v)) (\<lambda>adr.
        rbind (py_float (PseudorangeRateMetersPerSecond v)) (\<lambda>rate.
          let l = adr / GPS_L1_WAVELENGTH; d = - rate / GPS_L1_WAVELENGTH
          in case rinex_batch st of
               None \<Rightarrow> Inl AttributeError
             | Some b \<Rightarrow> Inr (st\<lparr>rinex_batch := Some (add_211 b svid psr (Cn0DbHz v) l d)\<rparr>))))"

definition step_211 :: "args \<Rightarrow> RinexBatch_211 pipeline \<Rightarrow> raw_values
    \<Rightarrow> py_error + RinexBatch_211 pipeline" where
  "step_211 a st v =
     (let st = st\<lparr>stderr := stderr st @ sync_diagnostics v\<rparr>
      in
      rbind (update_fullbiasnanos a (fullbiasnanos st) v) (\<lambda>fbn.
        let st = st\<lparr>fullbiasnanos := Some fbn\<rparr>
        in
        rbind (gpssow fbn v) (\<lambda>sow.
          let fr = frac a sow
          in
          rbind (gpstime_to_epoch (gpsweek fbn) (sow - fr)) (\<lambda>e.
          rbind (new_batch_211 (write_end_header_211 st e) e) (\<lambda>st.
          rbind (pseudorange_211 a sow fr v) (\<lambda>psr.
          rbind (svid_211 v) (\<lambda>r.
            case r of
              Inl d \<Rightarrow> Inr (st\<lparr>stderr := stderr st @ [d]\<rparr>)
            | Inr svid \<Rightarrow> store_211 a st v psr svid)))))))"

fun steps_211 :: "args \<Rightarrow> RinexBatch_211 pipeline \<Rightarrow> raw_values list
    \<Rightarrow> py_error + RinexBatch_211 pipeline" where
  "steps_211 a st [] = Inr st"
| "steps_211 a st (v # vs) = rbind (step_211 a st v) (\<lambda>st'. steps_211 a st' vs)"

definition run_211 :: "args \<Rightarrow> raw_values list \<Rightarrow> py_error + RinexBatch_211 pipeline" where
  "run_211 a vs =
     rbind (steps_211 a pipeline_init vs) (\<lambda>st.
       case rinex_batch st of
         None \<Rightarrow> Inl AttributeError
       | Some b \<Rightarrow>
           rbind (print_211 b) (\<lambda>(warnings, text).
             Inr (st\<lparr>stderr := stderr st @ warnings, out := out st @ [text]\<rparr>)))"

section \<open>The correction as the specification words it\<close>

text \<open>
  The wrap count of the specification: \<open>round\<close> of the ratio, an integer, away from zero
  with a half-unit bias toward the sign of the ratio; and the corrected cycles
  \<open>-(rawCycles - modulus \<times> wrapCount)\<close>. Used only to compare with \<^const>\<open>get_correction_adr\<close>.
\<close>

definition round_half_away :: "real \<Rightarrow> int" where
  "round_half_away r = (if r \<le> 0 then py_trunc (r - 0.5) else py_trunc (r + 0.5))"

definition spec_correction_adr :: "real \<Rightarrow> real \<Rightarrow> real \<Rightarrow> real" where
  "spec_correction_adr psr rawCycles wl =
     (let wrapCount = round_half_away ((psr / wl + rawCycles) / real_of_int MAX_VALUE)
      in - (rawCycles - real_of_int (MAX_VALUE * wrapCount)))"

section \<open>Example records\<close>

text \<open>
  A GPS L1 record as the logger writes it: the receiver clock is 5 s past a boot at GPS
  time 1300000000 s (week 2149, second 284800 of the week), the signal left the
  satellite 75 ms before its reception. The examples below vary it.
\<close>

definition example_gps :: raw_values where
  "example_gps =
     \<lparr>State = Some 15, FullBiasNanos = Some (- 1300000000000000000), BiasNanos = Some 0,
      TimeNanos = Some 5000000000, TimeOffsetNanos = Some 0, LeapSecond = Some 18,
      ConstellationType = Some 1, CarrierFrequencyHz = Some 1575420000,
      ReceivedSvTimeNanos = Some 284804925000000,
      PseudorangeRateMetersPerSecond = Some 120.5, Svid = Some 5,
      AccumulatedDeltaRangeMeters = Some 1000, AccumulatedDeltaRangeState = Some 1,
      Cn0DbHz = Some 35.2\<rparr>"

definition example_args :: args where
  "example_args = \<lparr>skip_edit = False, fix_bias = False, integerize = False\<rparr>"

section \<open>Batches built by \<^verbatim>\<open>add\<close>\<close>

text \<open>
  Notions used to state properties of a batch: the calls of \<^verbatim>\<open>add\<close> made on one batch, in
  order (each with its band code, satellite id and the four formatted values); the ids
  of a sequence in the order of their first occurrence; a batch whose columns all have
  one entry per satellite id and whose ids are distinct; the data line of the satellite
  at an index; and the indices of the satellites whose id contains a letter.
\<close>

type_synonym observable = "string \<times> string \<times> string \<times> string \<times> string \<times> string"

fun adds :: "RinexBatch \<Rightarrow> observable list \<Rightarrow> py_error + RinexBatch" where
  "adds b [] = Inr b"
| "adds b ((codeType, svid, c1v, s1v, l1v, d1v) # rest) =
     rbind (add b codeType svid c1v s1v l1v d1v) (\<lambda>b'. adds b' rest)"

fun first_seen :: "'a list \<Rightarrow> 'a list \<Rightarrow> 'a list" where
  "first_seen seen [] = seen"
| "first_seen seen (x # xs) =
     (if x \<in> set seen then first_seen seen xs else first_seen (seen @ [x]) xs)"

definition wf_batch :: "RinexBatch \<Rightarrow> bool" where
  "wf_batch b \<longleftrightarrow>
     distinct (svids b) \<and>
     length (c1 b) = length (svids b) \<and> length (c2 b) = length (svids b) \<and>
     length (l1 b) = length (svids b) \<and> length (l2 b) = length (svids b) \<and>
     length (s1 b) = length (svids b) \<and> length (s2 b) = length (svids b) \<and>
     length (d1 b) = length (svids b) \<and> length (d2 b) = length (svids b)"

definition row :: "RinexBatch \<Rightarrow> nat \<Rightarrow> string" where
  "row b i =
     ljust 5 (svids b ! i) @ rjust 12 (c1 b ! i) @ ''  '' @ rjust 14 (l1 b ! i) @ ''  ''
     @ rjust 14 (d1 b ! i) @ ''  '' @ rjust 14 (s1 b ! i) @ ''  '' @ rjust 14 (c2 b ! i) @ ''  ''
     @ rjust 14 (l2 b ! i) @ ''  '' @ rjust 14 (d2 b ! i) @ ''  '' @ rjust 14 (s2 b ! i)
     @ [newline]"

definition block :: "char \<Rightarrow> RinexBatch \<Rightarrow> nat list" where
  "block ch b = filter (\<lambda>i. ch \<in> set (svids b ! i)) [0..<length (svids b)]"

text \<open>The batch of a pipeline, when there is one, is such a batch.\<close>

definition wf_pipeline :: "RinexBatch pipeline \<Rightarrow> bool" where
  "wf_pipeline st = (case rinex_batch st of None \<Rightarrow> True | Some b \<Rightarrow> wf_batch b)"



section \<open>Basic facts\<close>

lemma rbind_Inl [simp]: "rbind (Inl e) f = Inl e"
  by (simp add: rbind_def)

lemma rbind_Inr [simp]: "rbind (Inr x) f = f x"
  by (simp add: rbind_def)

lemma rbind_eq_Inr: "rbind r f = Inr y \<longleftrightarrow> (\<exists>x. r = Inr x \<and> f x = Inr y)"
  by (cases r) simp_all

lemma py_float_simps [simp]: "py_float None = Inl TypeError" "py_float (Some x) = Inr x"
  by (simp_all add: py_float_def)

lemma py_int_simps [simp]: "py_int None = Inl TypeError" "py_int (Some x) = Inr (py_trunc x)"
  by (simp_all add: py_int_def)

lemma py_float_eq_Inr [simp]: "py_float x = Inr y \<longleftrightarrow> x = Some y"
  by (cases x) simp_all

lemma py_int_eq_Inr: "py_int x = Inr n \<longleftrightarrow> (\<exists>r. x = Some r \<and> n = py_trunc r)"
  by (cases x) auto

section \<open>The ambiguity correction\<close>

text \<open>
  Without a truncation of the biased ratio, the product with the modulus gives the ratio
  back: the result is the range in cycles plus or minus half the modulus, whatever the
  raw cycle count is beyond the sign it gives the ratio.
\<close>

lemma get_correction_adr_closed_form:
  "wave_length \<noteq> 0 \<Longrightarrow>
   get_correction_adr psr adr_cycles wave_length =
     Inr (psr / wave_length +
          (if psr / wave_length + adr_cycles \<le> 0 then - 4194304 else 4194304))"
  by (simp add: get_correction_adr_def MAX_VALUE_def Let_def divide_le_0_iff field_simps)

text \<open>
  C2. The specification computes an integer wrap count by rounding. At a range of
  22484434.35 m and a raw phase of 1000 m on GPS L1, rounding gives 14 wraps; the source
  adds the half-unit bias and never truncates, and returns another value.
\<close>

theorem get_correction_adr_wrap_count_not_rounded:
  "get_correction_adr 22484434.35 (1000 / GPS_L1_WAVELENGTH) GPS_L1_WAVELENGTH
     = Inr (22484434.35 / GPS_L1_WAVELENGTH + 4194304) \<and>
   spec_correction_adr 22484434.35 (1000 / GPS_L1_WAVELENGTH) GPS_L1_WAVELENGTH
     = 14 * 8388608 - 1000 / GPS_L1_WAVELENGTH \<and>
   22484434.35 / GPS_L1_WAVELENGTH + 4194304 \<noteq> 14 * 8388608 - 1000 / GPS_L1_WAVELENGTH"
  by (simp add: get_correction_adr_def spec_correction_adr_def round_half_away_def py_trunc_def
      MAX_VALUE_def GPS_L1_WAVELENGTH_def GPS_L1_FREQ_def SPEED_OF_LIGHT_def Let_def)



text \<open>
  The correction as the specification words it, with its rounded wrap count, is not
  idempotent either: at a range of zero, one cycle is corrected to minus one cycle and
  minus one cycle back to one.
\<close>

lemma spec_correction_adr_not_idempotent:
  "spec_correction_adr 0 1 GPS_L1_WAVELENGTH = - 1 \<and>
   spec_correction_adr 0 (- 1) GPS_L1_WAVELENGTH = 1"
  by (simp add: spec_correction_adr_def round_half_away_def py_trunc_def MAX_VALUE_def Let_def)



section \<open>Repeated satellite ids\<close>

lemma repeated_entries_iff:
  "repeated_entries xs all \<longleftrightarrow> (\<exists>x \<in> set xs. 1 < count_list all x)"
  by (induction xs) auto

lemma distinct_count_list_le_1: "distinct xs \<Longrightarrow> count_list xs x \<le> 1"
  by (induction xs) auto

lemma not_distinct_count_list:
  "\<not> distinct xs \<Longrightarrow> \<exists>x \<in> set xs. 1 < count_list xs x"
proof (induction xs)
  case Nil
  then show ?case by simp
next
  case (Cons a xs)
  show ?case
  proof (cases "a \<in> set xs")
    case True
    then have "count_list xs a \<noteq> 0" by (simp add: count_list_0_iff)
    then have "1 < count_list (a # xs) a" by simp
    then show ?thesis by (meson list.set_intros(1))
  next
    case False
    with Cons.prems have "\<not> distinct xs" by simp
    with Cons.IH obtain x where x: "x \<in> set xs" "1 < count_list xs x" by blast
    then have "1 < count_list (a # xs) x" by simp
    with x show ?thesis by (meson list.set_intros(2))
  qed
qed

lemma repeated_entries_distinct: "repeated_entries xs xs \<longleftrightarrow> \<not> distinct xs"
proof
  assume "repeated_entries xs xs"
  then obtain x where "1 < count_list xs x" unfolding repeated_entries_iff by blast
  then show "\<not> distinct xs" using distinct_count_list_le_1 [of xs x] by linarith
next
  assume "\<not> distinct xs"
  then show "repeated_entries xs xs"
    unfolding repeated_entries_iff by (rule not_distinct_count_list)
qed

lemma print_repeated:
  "\<not> distinct (svids b) \<Longrightarrow> print b = Inr ([Repeated_entries (epoch b)], [])"
  unfolding print_def by (simp only: repeated_entries_distinct not_False_eq_True if_True)

lemma print_211_repeated:
  "\<not> distinct (svids_211 b) \<Longrightarrow> print_211 b = Inr ([Repeated_entries (epoch_211 b)], [])"
  unfolding print_211_def by (simp only: repeated_entries_distinct not_False_eq_True if_True)

text \<open>
  C4. A batch whose list of satellite ids holds an id more than once prints as the empty
  string, in both converters, and the print reports the repeated entries on the
  diagnostic channel.
\<close>

theorem print_repeated_entries:
  "(\<not> distinct (svids b) \<longrightarrow> print b = Inr ([Repeated_entries (epoch b)], [])) \<and>
   (\<not> distinct (svids_211 b') \<longrightarrow> print_211 b' = Inr ([Repeated_entries (epoch_211 b')], []))"
  using print_repeated [of b] print_211_repeated [of b'] by blast

theorem print_repeated_entries_witness:
  "\<not> distinct [''G05'', ''R01'', ''G05''] \<and>
   print \<lparr>epoch = GPSTIME, svids = [''G05'', ''R01'', ''G05''],
          c1 = [''1.000'', ''2.000'', ''3.000''], c2 = [[], [], []],
          l1 = [''1.000'', ''2.000'', ''3.000''], l2 = [[], [], []],
          s1 = [''1.000'', ''2.000'', ''3.000''], s2 = [[], [], []],
          d1 = [''1.000'', ''2.000'', ''3.000''], d2 = [[], [], []]\<rparr>
     = Inr ([Repeated_entries GPSTIME], []) \<and>
   print_211 (add_211 (add_211 (RinexBatch_init_211 GPSTIME) ''G05'' 22484434.35 (Some 35) 10 20)
                ''G05'' 22484434.35 (Some 35) 10 20)
     = Inr ([Repeated_entries GPSTIME], [])"
proof -
  let ?b = "\<lparr>epoch = GPSTIME, svids = [''G05'', ''R01'', ''G05''],
          c1 = [''1.000'', ''2.000'', ''3.000''], c2 = [[], [], []],
          l1 = [''1.000'', ''2.000'', ''3.000''], l2 = [[], [], []],
          s1 = [''1.000'', ''2.000'', ''3.000''], s2 = [[], [], []],
          d1 = [''1.000'', ''2.000'', ''3.000''], d2 = [[], [], []]\<rparr>"
  let ?b' = "add_211 (add_211 (RinexBatch_init_211 GPSTIME) ''G05'' 22484434.35 (Some 35) 10 20)
                ''G05'' 22484434.35 (Some 35) 10 20"
  have d: "\<not> distinct [''G05'', ''R01'', ''G05'']" by simp
  have s: "svids ?b = [''G05'', ''R01'', ''G05'']" "epoch ?b = GPSTIME" by simp_all
  have s': "svids_211 ?b' = [''G05'', ''G05'']" "epoch_211 ?b' = GPSTIME"
    by (simp_all add: add_211_def RinexBatch_init_211_def)
  have d': "\<not> distinct [''G05'', ''G05'']" by simp
  from print_repeated_entries [of ?b ?b'] d d' show ?thesis
    unfolding s s' by blast
qed

section \<open>Reception time and travel time\<close>

lemmas time_consts = NS_TO_S_def S_TO_NS_def GPS_WEEKSECS_def NUM_NANOSEC_WEEK_def
  NUM_NANOSEC_DAY_def NUM_NANOSEC_100MILL_def SPEED_OF_LIGHT_def

lemmas constellation_consts = CONSTELLATION_GPS_def CONSTELLATION_SBAS_def
  CONSTELLATION_GLONASS_def CONSTELLATION_QZSS_def CONSTELLATION_BEIDOU_def
  CONSTELLATION_GALILEO_def

text \<open>
  A boundary \<open>\<lfloor>x / p\<rfloor> * p\<close> is the last whole multiple of the period \<open>p\<close> that is not
  after \<open>x\<close>.
\<close>

lemma floor_boundary:
  fixes p x :: real
  assumes "0 < p"
  shows "(\<exists>k::int. real_of_int \<lfloor>x / p\<rfloor> * p = real_of_int k * p) \<and>
         real_of_int \<lfloor>x / p\<rfloor> * p \<le> x \<and> x < real_of_int \<lfloor>x / p\<rfloor> * p + p"
proof -
  have le: "real_of_int \<lfloor>x / p\<rfloor> \<le> x / p"
    using floor_correct [of "x / p"] by simp
  have lt: "x / p < real_of_int \<lfloor>x / p\<rfloor> + 1"
    using floor_correct [of "x / p"] by simp
  have 1: "real_of_int \<lfloor>x / p\<rfloor> * p \<le> x"
    using le pos_le_divide_eq [OF assms, of "real_of_int \<lfloor>x / p\<rfloor>" x] by blast
  have "x < (real_of_int \<lfloor>x / p\<rfloor> + 1) * p"
    using lt pos_divide_less_eq [OF assms, of x "real_of_int \<lfloor>x / p\<rfloor> + 1"] by blast
  then have 2: "x < real_of_int \<lfloor>x / p\<rfloor> * p + p"
    by (simp add: algebra_simps)
  from 1 2 show ?thesis by blast
qed

text \<open>
  C1, as stated: a Galileo record on the high band (E1, 1575.42 MHz) is referred to the
  week-start boundary. The source refers it to the 100-millisecond boundary: with the
  clock 5 s past GPS time 1300000000 s, the reception time is 5 s, not second 284805 of
  the week.
\<close>

theorem tRx_nanos_galileo_high_band_not_week_start:
  "tRx_GNSS (example_gps\<lparr>ConstellationType := Some 6\<rparr>) = Inr 1300000005000000000 \<and>
   week_number_nanos (- 1300000000000000000) = 1299715200000000000 \<and>
   tRx_nanos (- 1300000000000000000) (example_gps\<lparr>ConstellationType := Some 6\<rparr>)
     \<noteq> Inr (1300000005000000000 - 1299715200000000000) \<and>
   tRx_nanos (- 1300000000000000000) (example_gps\<lparr>ConstellationType := Some 6\<rparr>)
     = Inr 5000000000"
  by (simp add: tRx_nanos_def tRx_GNSS_def week_number_nanos_def millSec_number_nanos_def
      example_gps_def py_trunc_def time_consts constellation_consts)

text \<open>
  C1, amended: with \<open>t\<close> the receiver time \<^verbatim>\<open>tRx_GNSS\<close> of the record and \<open>c\<close> its
  constellation, the reception time is \<open>t\<close> less the week-start boundary for GPS, less the
  day-start boundary plus three hours minus the leap seconds for GLONASS, less the
  week-start boundary and 14 s for BeiDou, and for Galileo less the 100-millisecond
  boundary when the carrier frequency is above 1500 MHz and less the week-start boundary
  otherwise (a Galileo record without a carrier frequency raises); every other
  constellation is referred to the week start. Each boundary is the last whole multiple
  of its period not after the negated clock bias.
\<close>

theorem tRx_nanos_origin:
  assumes "tRx_GNSS v = Inr t" and "py_int (ConstellationType v) = Inr c"
  shows
    "(c = 1 \<longrightarrow> tRx_nanos fbn v = Inr (t - week_number_nanos fbn)) \<and>
     (c = 3 \<longrightarrow> tRx_nanos fbn v =
        Inr (t - day_number_nanos fbn + real_of_int (3 * 3600 - leap_second v) * 1000000000)) \<and>
     (c = 5 \<longrightarrow> tRx_nanos fbn v = Inr (t - week_number_nanos fbn - 14 * 1000000000)) \<and>
     (c = 6 \<longrightarrow>
        (case CarrierFrequencyHz v of
           None \<Rightarrow> tRx_nanos fbn v = Inl TypeError
         | Some f \<Rightarrow>
             tRx_nanos fbn v =
               Inr (t - (if 1500000000 < f then millSec_number_nanos fbn
                         else week_number_nanos fbn)))) \<and>
     (c \<notin> {1, 3, 5, 6} \<longrightarrow> tRx_nanos fbn v = Inr (t - week_number_nanos fbn)) \<and>
     ((\<exists>k::int. week_number_nanos fbn = real_of_int k * 604800000000000) \<and>
      week_number_nanos fbn \<le> - fbn \<and> - fbn < week_number_nanos fbn + 604800000000000) \<and>
     ((\<exists>k::int. day_number_nanos fbn = real_of_int k * 86400000000000) \<and>
      day_number_nanos fbn \<le> - fbn \<and> - fbn < day_number_nanos fbn + 86400000000000) \<and>
     ((\<exists>k::int. millSec_number_nanos fbn = real_of_int k * 100000000) \<and>
      millSec_number_nanos fbn \<le> - fbn \<and> - fbn < millSec_number_nanos fbn + 100000000)"
proof -
  have branches:
    "(c = 1 \<longrightarrow> tRx_nanos fbn v = Inr (t - week_number_nanos fbn)) \<and>
     (c = 3 \<longrightarrow> tRx_nanos fbn v =
        Inr (t - day_number_nanos fbn + real_of_int (3 * 3600 - leap_second v) * 1000000000)) \<and>
     (c = 5 \<longrightarrow> tRx_nanos fbn v = Inr (t - week_number_nanos fbn - 14 * 1000000000)) \<and>
     (c = 6 \<longrightarrow>
        (case CarrierFrequencyHz v of
           None \<Rightarrow> tRx_nanos fbn v = Inl TypeError
         | Some f \<Rightarrow>
             tRx_nanos fbn v =
               Inr (t - (if 1500000000 < f then millSec_number_nanos fbn
                         else week_number_nanos fbn)))) \<and>
     (c \<notin> {1, 3, 5, 6} \<longrightarrow> tRx_nanos fbn v = Inr (t - week_number_nanos fbn))"
    using assms
    by (simp add: tRx_nanos_def constellation_consts S_TO_NS_def split: option.split)
  have w: "(\<exists>k::int. week_number_nanos fbn = real_of_int k * 604800000000000) \<and>
      week_number_nanos fbn \<le> - fbn \<and> - fbn < week_number_nanos fbn + 604800000000000"
    using floor_boundary [of 604800000000000 "- fbn"]
    by (simp add: week_number_nanos_def NUM_NANOSEC_WEEK_def)
  have d: "(\<exists>k::int. day_number_nanos fbn = real_of_int k * 86400000000000) \<and>
      day_number_nanos fbn \<le> - fbn \<and> - fbn < day_number_nanos fbn + 86400000000000"
    using floor_boundary [of 86400000000000 "- fbn"]
    by (simp add: day_number_nanos_def NUM_NANOSEC_DAY_def)
  have m: "(\<exists>k::int. millSec_number_nanos fbn = real_of_int k * 100000000) \<and>
      millSec_number_nanos fbn \<le> - fbn \<and> - fbn < millSec_number_nanos fbn + 100000000"
    using floor_boundary [of 100000000 "- fbn"]
    by (simp add: millSec_number_nanos_def NUM_NANOSEC_100MILL_def)
  from branches w d m show ?thesis by blast
qed

theorem tRx_nanos_origin_witness:
  "tRx_GNSS (example_gps\<lparr>ConstellationType := Some 6\<rparr>) = Inr 1300000005000000000 \<and>
   py_int (ConstellationType (example_gps\<lparr>ConstellationType := Some 6\<rparr>)) = Inr 6 \<and>
   CarrierFrequencyHz (example_gps\<lparr>ConstellationType := Some 6\<rparr>) = Some 1575420000 \<and>
   tRx_nanos (- 1300000000000000000) (example_gps\<lparr>ConstellationType := Some 6\<rparr>)
     = Inr (1300000005000000000 - millSec_number_nanos (- 1300000000000000000))"
proof -
  let ?v = "example_gps\<lparr>ConstellationType := Some 6\<rparr>"
  have 1: "tRx_GNSS ?v = Inr 1300000005000000000"
    by (simp add: tRx_GNSS_def example_gps_def)
  have 2: "py_int (ConstellationType ?v) = Inr 6"
    by (simp add: example_gps_def py_trunc_def)
  have 3: "CarrierFrequencyHz ?v = Some 1575420000"
    by (simp add: example_gps_def)
  from tRx_nanos_origin [OF 1 2, of "- 1300000000000000000"] 1 2 3 show ?thesis
    by simp
qed

text \<open>
  C3, as stated: the travel time that is scaled by the speed of light is never negative.
  One week is added once only: a transmission time more than a week after the reception
  time leaves the travel time negative.
\<close>

theorem tau_negative_after_rollover:
  "tau (- 1300000000000000000) (example_gps\<lparr>ReceivedSvTimeNanos := Some 1000000000000000\<rparr>)
     = Inr (- 110395)"
  by (simp add: tau_def tau_raw_def tRx_nanos_def tRx_GNSS_def week_number_nanos_def
      example_gps_def py_trunc_def time_consts constellation_consts Let_def)

text \<open>
  C3, amended: in both converters a negative travel time has exactly one week (604800 s)
  added and any other is left as it is; the travel time that is scaled by the speed of
  light is not negative whenever the computed one is not below minus one week.
\<close>

theorem tau_week_rollover:
  "(tau_raw fbn v = Inr t \<longrightarrow>
      tau fbn v = Inr (if t < 0 then t + 604800 else t) \<and>
      (- 604800 \<le> t \<longrightarrow>
         (\<exists>t'. tau fbn v = Inr t' \<and> 0 \<le> t' \<and>
               pseudorange (a\<lparr>integerize := False\<rparr>) fbn fr v = Inr (t' * SPEED_OF_LIGHT)))) \<and>
   (tau_raw_211 sow v' = Inr u \<longrightarrow>
      tau_211 sow v' = Inr (if u < 0 then u + 604800 else u) \<and>
      (- 604800 \<le> u \<longrightarrow>
         (\<exists>u'. tau_211 sow v' = Inr u' \<and> 0 \<le> u' \<and>
               pseudorange_211 (a\<lparr>integerize := False\<rparr>) sow fr v' = Inr (u' * SPEED_OF_LIGHT))))"
  by (simp add: tau_def tau_211_def pseudorange_def pseudorange_211_def GPS_WEEKSECS_def Let_def)

theorem tau_week_rollover_witness:
  "tau_raw (- 1300000000000000000) (example_gps\<lparr>ReceivedSvTimeNanos := Some 284806000000000\<rparr>)
     = Inr (- 1) \<and>
   tau (- 1300000000000000000) (example_gps\<lparr>ReceivedSvTimeNanos := Some 284806000000000\<rparr>)
     = Inr 604799 \<and>
   pseudorange example_args (- 1300000000000000000) 0
       (example_gps\<lparr>ReceivedSvTimeNanos := Some 284806000000000\<rparr>)
     = Inr (604799 * SPEED_OF_LIGHT) \<and>
   tau_raw_211 284805 (example_gps\<lparr>ReceivedSvTimeNanos := Some 284806000000000\<rparr>) = Inr (- 1) \<and>
   tau_211 284805 (example_gps\<lparr>ReceivedSvTimeNanos := Some 284806000000000\<rparr>) = Inr 604799 \<and>
   pseudorange_211 example_args 284805 0
       (example_gps\<lparr>ReceivedSvTimeNanos := Some 284806000000000\<rparr>)
     = Inr (604799 * SPEED_OF_LIGHT)"
proof -
  let ?v = "example_gps\<lparr>ReceivedSvTimeNanos := Some 284806000000000\<rparr>"
  have 1: "tau_raw (- 1300000000000000000) ?v = Inr (- 1)"
    by (simp add: tau_raw_def tRx_nanos_def tRx_GNSS_def week_number_nanos_def
      example_gps_def py_trunc_def time_consts constellation_consts Let_def)
  have 2: "tau_raw_211 284805 ?v = Inr (- 1)"
    by (simp add: tau_raw_211_def time_offset_nanos_211_def example_gps_def time_consts Let_def)
  have 3: "example_args\<lparr>integerize := False\<rparr> = example_args"
    by (simp add: example_args_def)
  from tau_week_rollover [of "- 1300000000000000000" ?v "- 1" example_args 0 284805 ?v "- 1"] 1 2
  show ?thesis unfolding 3 by auto
qed

section \<open>Integerized epochs\<close>

lemma py_trunc_of_int [simp]: "py_trunc (real_of_int n) = n"
  by (simp add: py_trunc_def)

lemma py_round_0 [simp]: "py_round 0 = 0"
  by (simp add: py_round_def)


























lemmas eval_svid = fmt_02d_def zfill_def digits.simps digit_char_def


section \<open>Records without code lock or decoded time of week\<close>

text \<open>Nothing after the synchronization check reads the \<^verbatim>\<open>State\<close> field.\<close>

lemma State_update_clock [simp]:
  "update_fullbiasnanos a fb (v\<lparr>State := x\<rparr>) = update_fullbiasnanos a fb v"
  "gpssow fbn (v\<lparr>State := x\<rparr>) = gpssow fbn v"
  "tRx_GNSS (v\<lparr>State := x\<rparr>) = tRx_GNSS v"
  "leap_second (v\<lparr>State := x\<rparr>) = leap_second v"
  "carrier_frequency (v\<lparr>State := x\<rparr>) = carrier_frequency v"
  "time_offset_nanos_211 (v\<lparr>State := x\<rparr>) = time_offset_nanos_211 v"
  "band codeType wl wl' psr (v\<lparr>State := x\<rparr>) = band codeType wl wl' psr v"
  by (simp_all add: update_fullbiasnanos_def gpssow_def tRx_GNSS_def leap_second_def
      carrier_frequency_def time_offset_nanos_211_def band_def cong: if_cong option.case_cong)

lemma State_update_tRx_nanos [simp]: "tRx_nanos fbn (v\<lparr>State := x\<rparr>) = tRx_nanos fbn v"
  by (simp add: tRx_nanos_def cong: if_cong)

lemma State_update_tau [simp]:
  "tau_raw fbn (v\<lparr>State := x\<rparr>) = tau_raw fbn v"
  "tau fbn (v\<lparr>State := x\<rparr>) = tau fbn v"
  "tau_raw_211 sow (v\<lparr>State := x\<rparr>) = tau_raw_211 sow v"
  "tau_211 sow (v\<lparr>State := x\<rparr>) = tau_211 sow v"
  by (simp_all add: tau_raw_def tau_def tau_raw_211_def tau_211_def)

lemma State_update_pseudorange [simp]:
  "pseudorange a fbn fr (v\<lparr>State := x\<rparr>) = pseudorange a fbn fr v"
  "pseudorange_211 a sow fr (v\<lparr>State := x\<rparr>) = pseudorange_211 a sow fr v"
  by (simp_all add: pseudorange_def pseudorange_211_def cong: if_cong)

lemma State_update_classify [simp]:
  "classify psr (v\<lparr>State := x\<rparr>) = classify psr v"
  "svid_211 (v\<lparr>State := x\<rparr>) = svid_211 v"
  by (simp_all add: classify_def svid_211_def cong: if_cong)

lemma State_update_store [simp]:
  "store st (v\<lparr>State := x\<rparr>) psr svid codeType l d = store st v psr svid codeType l d"
  "store_211 a st' (v\<lparr>State := x\<rparr>) psr svid = store_211 a st' v psr svid"
  by (simp_all add: store_def store_211_def cong: if_cong option.case_cong)

lemma sync_diagnostics_locked [simp]: "sync_diagnostics (v\<lparr>State := Some 9\<rparr>) = []"
  by (simp add: sync_diagnostics_def check_state_def py_trunc_def
      STATE_CODE_LOCK_def STATE_TOW_DECODED_def)



section \<open>Evaluation of the text functions\<close>

lemma replicate_numeral: "replicate (numeral k) x = x # replicate (pred_numeral k) x"
  by (simp add: numeral_eq_Suc)

lemmas eval_text = fmt_02d_def zfill_def digits.simps digit_char_def replicate_numeral
  fmt_3f_def py_round_def fmt_3d_def ljust_def rjust_def Let_def

lemmas eval_range = pseudorange_def tau_def tau_raw_def tRx_nanos_def tRx_GNSS_def
  week_number_nanos_def day_number_nanos_def millSec_number_nanos_def leap_second_def



lemmas eval_211 = write_end_header_211_def new_batch_211_def RinexBatch_init_211_def
  pseudorange_211_def tau_211_def tau_raw_211_def time_offset_nanos_211_def svid_211_def
  store_211_def add_211_def

lemma fmt_3f_examples:
  "fmt_3f 0 = ''0.000''"
  "fmt_3f 22484434.35 = ''22484434.350''"
  "fmt_3f 35.2 = ''35.200''"
  "fmt_3f (22484434.35 / GPS_L1_WAVELENGTH + 4194304) = ''122350804.000''"
  "fmt_3f (- 120.5 / GPS_L1_WAVELENGTH) = ''-633.232''"
  by (simp_all add: eval_text GPS_L1_WAVELENGTH_def GPS_L1_FREQ_def SPEED_OF_LIGHT_def)

section \<open>One iteration, stage by stage\<close>

lemma step_eval:
  assumes "update_fullbiasnanos a (fullbiasnanos st) v = Inr fbn"
    and "gpssow fbn v = Inr sow"
    and "gpstime_to_epoch (gpsweek fbn) (sow - frac a sow) = Inr e"
    and "new_batch
           (write_end_header
              (st\<lparr>stderr := stderr st @ sync_diagnostics v, fullbiasnanos := Some fbn\<rparr>) e) e
         = Inr st2"
    and "pseudorange a fbn (frac a sow) v = Inr psr"
  shows "step a st v =
           rbind (classify psr v) (\<lambda>r.
             case r of
               Inl d \<Rightarrow> Inr (st2\<lparr>stderr := stderr st2 @ [d]\<rparr>)
             | Inr (svid, codeType, l, d) \<Rightarrow> store st2 v psr svid codeType l d)"
  using assms by (simp add: step_def Let_def)


lemma step_stages:
  assumes "step a st v = Inr st'"
  shows "\<exists>fbn sow e st2 psr r.
           update_fullbiasnanos a (fullbiasnanos st) v = Inr fbn \<and> gpssow fbn v = Inr sow \<and>
           gpstime_to_epoch (gpsweek fbn) (sow - frac a sow) = Inr e \<and>
           new_batch
             (write_end_header
                (st\<lparr>stderr := stderr st @ sync_diagnostics v, fullbiasnanos := Some fbn\<rparr>) e) e
             = Inr st2 \<and>
           pseudorange a fbn (frac a sow) v = Inr psr \<and> classify psr v = Inr r \<and>
           (case r of
              Inl d \<Rightarrow> Inr (st2\<lparr>stderr := stderr st2 @ [d]\<rparr>)
            | Inr (svid, codeType, l, d) \<Rightarrow> store st2 v psr svid codeType l d) = Inr st'"
  using assms by (simp add: step_def Let_def rbind_eq_Inr)


section \<open>The GLONASS channel table\<close>

text \<open>
  C8. The slot test lets every PRN below 93 pass, the table has 24 entries: a GLONASS
  record with PRN 25 on the L1 band reads \<^verbatim>\<open>GLN_LIST[24]\<close>, and the iteration ends with an
  \<^verbatim>\<open>IndexError\<close> that nothing catches.
\<close>

theorem glonass_prn_25_index_error:
  "step example_args pipeline_init
     (example_gps\<lparr>ConstellationType := Some 3, Svid := Some 25,
                  CarrierFrequencyHz := Some 1602000000,
                  ReceivedSvTimeNanos := Some 36386925000000\<rparr>)
   = Inl IndexError"
proof -
  let ?v = "example_gps\<lparr>ConstellationType := Some 3, Svid := Some 25,
                  CarrierFrequencyHz := Some 1602000000,
                  ReceivedSvTimeNanos := Some 36386925000000\<rparr>"
  let ?F = "- 1300000000000000000 :: real"
  let ?E = "63751561605000000 :: nat"
  have d: "sync_diagnostics ?v = []"
    by (simp add: sync_diagnostics_def check_state_def py_trunc_def example_gps_def
        STATE_CODE_LOCK_def STATE_TOW_DECODED_def)
  have fb: "update_fullbiasnanos example_args (fullbiasnanos pipeline_init) ?v = Inr ?F"
    by (simp add: update_fullbiasnanos_def pipeline_init_def example_gps_def)
  have sw: "gpssow ?F ?v = Inr 284805"
    by (simp add: gpssow_def gpsweek_def example_gps_def time_consts)
  have fr: "frac example_args 284805 = 0"
    by (simp add: frac_def example_args_def)
  have ep: "gpstime_to_epoch (gpsweek ?F) (284805 - frac example_args 284805) = Inr ?E"
    unfolding fr
    by (simp add: gpstime_to_epoch_def gpsweek_def GPSTIME_def DATETIME_MAX_US_def py_trunc_def
        time_consts)
  have nb: "new_batch
      (write_end_header
         (pipeline_init\<lparr>stderr := stderr pipeline_init @ sync_diagnostics ?v,
                         fullbiasnanos := Some ?F\<rparr>) ?E) ?E
      = Inr \<lparr>first_epoch = Some False, rinex_batch = Some (RinexBatch_init ?E),
              fullbiasnanos = Some ?F, out = [end_header ?E], stderr = []\<rparr>"
    unfolding d by (simp add: new_batch_def write_end_header_def pipeline_init_def)
  have ps: "pseudorange example_args ?F (frac example_args 284805) ?v = Inr 22484434.35"
    unfolding fr
    by (simp add: eval_range example_gps_def example_args_def py_trunc_def time_consts
        constellation_consts)
  have cl: "classify 22484434.35 ?v = Inl IndexError"
    by (simp add: classify_def carrier_frequency_def get_item_def GLN_LIST_def example_gps_def
        py_trunc_def constellation_consts Let_def)
  show ?thesis
    unfolding step_eval [OF fb sw ep nb ps] cl by (simp only: rbind_Inl)
qed

section \<open>Order of the data lines\<close>

lemma find_svid_None: "find_svid s xs i = None \<longleftrightarrow> s \<notin> set xs"
  by (induction xs arbitrary: i) auto

lemma find_svid_Some:
  "find_svid s xs i = Some j \<Longrightarrow> i \<le> j \<and> j - i < length xs \<and> xs ! (j - i) = s"
proof (induction xs arbitrary: i)
  case Nil
  then show ?case by simp
next
  case (Cons x xs)
  show ?case
  proof (cases "s = x")
    case True
    with Cons.prems show ?thesis by simp
  next
    case False
    with Cons.prems have "find_svid s xs (i + 1) = Some j" by simp
    from Cons.IH [OF this] have "i + 1 \<le> j" "j - (i + 1) < length xs" "xs ! (j - (i + 1)) = s"
      by simp_all
    moreover from \<open>i + 1 \<le> j\<close> have "j - i = Suc (j - (i + 1))" by arith
    ultimately show ?thesis by simp
  qed
qed

lemma wf_batch_init [simp]: "wf_batch (RinexBatch_init e)"
  by (simp add: wf_batch_def RinexBatch_init_def)

lemma add_wf:
  assumes "wf_batch b"
  shows "\<exists>b'. add b codeType svid c1v s1v l1v d1v = Inr b' \<and> wf_batch b' \<and> epoch b' = epoch b \<and>
              svids b' = (if svid \<in> set (svids b) then svids b else svids b @ [svid])"
proof (cases "find_svid svid (svids b) 0")
  case None
  then have "svid \<notin> set (svids b)" by (simp add: find_svid_None)
  with None assms show ?thesis
    by (simp add: add_def wf_batch_def)
next
  case (Some i)
  from find_svid_Some [OF Some] have i: "i < length (svids b)" "svids b ! i = svid" by simp_all
  then have "svid \<in> set (svids b)" by (metis nth_mem)
  with Some i assms show ?thesis
    by (simp add: add_def wf_batch_def set_item_def)
qed

lemma first_seen_append: "first_seen seen (xs @ ys) = first_seen (first_seen seen xs) ys"
  by (induction xs arbitrary: seen) simp_all

lemma adds_wf:
  assumes "wf_batch b"
  shows "\<exists>b'. adds b obs = Inr b' \<and> wf_batch b' \<and> epoch b' = epoch b \<and>
              svids b' = first_seen (svids b) (map (\<lambda>ob. fst (snd ob)) obs)"
  using assms
proof (induction obs arbitrary: b)
  case Nil
  then show ?case by simp
next
  case (Cons ob obs)
  obtain codeType svid c1v s1v l1v d1v where ob: "ob = (codeType, svid, c1v, s1v, l1v, d1v)"
    by (cases ob) auto
  from add_wf [OF Cons.prems, of codeType svid c1v s1v l1v d1v]
  obtain b1 where b1: "add b codeType svid c1v s1v l1v d1v = Inr b1" "wf_batch b1"
    "epoch b1 = epoch b"
    "svids b1 = (if svid \<in> set (svids b) then svids b else svids b @ [svid])"
    by blast
  from Cons.IH [OF b1(2)] obtain b' where b': "adds b1 obs = Inr b'" "wf_batch b'"
    "epoch b' = epoch b1" "svids b' = first_seen (svids b1) (map (\<lambda>ob. fst (snd ob)) obs)"
    by blast
  from b1 b' show ?case by (cases "svid \<in> set (svids b)") (simp_all add: ob)
qed

lemma data_line_wf:
  assumes "wf_batch b" and "i < length (svids b)"
  shows "data_line b i = Inr (row b i)"
  using assms by (simp add: data_line_def row_def get_item_def wf_batch_def)

lemma print_block_wf:
  assumes "wf_batch b" and "\<forall>i \<in> set idx. i < length (svids b)"
  shows "print_block ch b idx data =
           Inr (data @ concat (map (row b) (filter (\<lambda>i. ch \<in> set (svids b ! i)) idx)))"
  using assms(2)
proof (induction idx arbitrary: data)
  case Nil
  then show ?case by simp
next
  case (Cons i idx)
  then have i: "i < length (svids b)" and rest: "\<forall>j \<in> set idx. j < length (svids b)"
    by simp_all
  show ?case
    by (simp add: data_line_wf [OF assms(1) i] Cons.IH [OF rest])
qed

lemma print_wf:
  assumes "wf_batch b"
  shows "print b =
           Inr ([], strftime (''> %Y %m %d %H %M %S.%f   0'' @ fmt_3d (length (svids b))) (epoch b)
                    @ [newline]
                    @ concat (map (row b)
                        (block CHR ''G'' b @ block CHR ''C'' b @ block CHR ''E'' b
                         @ block CHR ''R'' b @ block CHR ''J'' b)))"
proof -
  have d: "\<not> repeated_entries (svids b) (svids b)"
    using assms by (simp add: repeated_entries_distinct wf_batch_def)
  have idx: "\<forall>i \<in> set [0..<length (svids b)]. i < length (svids b)" by simp
  show ?thesis
    unfolding print_def Let_def
    by (simp only: d if_False print_block_wf [OF assms idx] rbind_Inr block_def
        map_append concat_append append_Nil append_assoc)
qed

lemma block_ids:
  "map ((!) xs) (filter (\<lambda>i. P (xs ! i)) [0..<length xs]) = filter P xs"
proof -
  have "filter P xs = filter P (map ((!) xs) [0..<length xs])"
    by (simp add: map_nth)
  also have "\<dots> = map ((!) xs) (filter (P \<circ> (!) xs) [0..<length xs])"
    by (simp only: filter_map)
  finally show ?thesis by (simp add: comp_def)
qed

text \<open>
  C9. The calls of \<^verbatim>\<open>add\<close> on a fresh batch never fail and leave the satellite ids in the
  order in which they were first added. The batch then prints as one epoch line (the time
  and the satellite count, no satellite ids and hence no continuation lines) followed by
  the data lines of the satellites whose id contains \<open>G\<close>, then \<open>C\<close>, \<open>E\<close>, \<open>R\<close> and \<open>J\<close>;
  the ids of each block are the ids of the batch with that letter, in the order of first
  addition.
\<close>

theorem print_constellation_blocks:
  "\<exists>b. adds (RinexBatch_init e) obs = Inr b \<and>
        svids b = first_seen [] (map (\<lambda>ob. fst (snd ob)) obs) \<and>
        print b =
          Inr ([], strftime (''> %Y %m %d %H %M %S.%f   0'' @ fmt_3d (length (svids b))) e
                   @ [newline]
                   @ concat (map (row b)
                       (block CHR ''G'' b @ block CHR ''C'' b @ block CHR ''E'' b
                        @ block CHR ''R'' b @ block CHR ''J'' b))) \<and>
        (\<forall>ch. map ((!) (svids b)) (block ch b)
               = filter (\<lambda>s. ch \<in> set s) (first_seen [] (map (\<lambda>ob. fst (snd ob)) obs)))"
proof -
  from adds_wf [OF wf_batch_init, of e obs] obtain b where
    b: "adds (RinexBatch_init e) obs = Inr b" "wf_batch b" "epoch b = e"
       "svids b = first_seen [] (map (\<lambda>ob. fst (snd ob)) obs)"
    by (auto simp add: RinexBatch_init_def)
  have blocks: "\<forall>ch. map ((!) (svids b)) (block ch b)
               = filter (\<lambda>s. ch \<in> set s) (first_seen [] (map (\<lambda>ob. fst (snd ob)) obs))"
    unfolding block_def using block_ids [of "svids b" "\<lambda>s. _ \<in> set s"] b(4) by simp
  from print_wf [OF b(2)] b blocks show ?thesis by auto
qed

theorem print_constellation_blocks_witness:
  "\<exists>b. adds (RinexBatch_init GPSTIME)
          [(''L1'', ''R05'', ''1.000'', ''2.000'', ''3.000'', ''4.000''),
           (''E1'', ''E11'', ''1.000'', ''2.000'', ''3.000'', ''4.000''),
           (''L1'', ''G05'', ''1.000'', ''2.000'', ''3.000'', ''4.000''),
           (''B1'', ''C07'', ''1.000'', ''2.000'', ''3.000'', ''4.000''),
           (''L5'', ''G05'', ''5.000'', ''6.000'', ''7.000'', ''8.000'')] = Inr b \<and>
        svids b = [''R05'', ''E11'', ''G05'', ''C07''] \<and>
        map ((!) (svids b))
          (block CHR ''G'' b @ block CHR ''C'' b @ block CHR ''E'' b @ block CHR ''R'' b
           @ block CHR ''J'' b)
          = [''G05'', ''C07'', ''E11'', ''R05'']"
proof -
  let ?obs = "[(''L1'', ''R05'', ''1.000'', ''2.000'', ''3.000'', ''4.000''),
           (''E1'', ''E11'', ''1.000'', ''2.000'', ''3.000'', ''4.000''),
           (''L1'', ''G05'', ''1.000'', ''2.000'', ''3.000'', ''4.000''),
           (''B1'', ''C07'', ''1.000'', ''2.000'', ''3.000'', ''4.000''),
           (''L5'', ''G05'', ''5.000'', ''6.000'', ''7.000'', ''8.000'')]"
  have ids: "first_seen [] (map (\<lambda>ob. fst (snd ob)) ?obs) = [''R05'', ''E11'', ''G05'', ''C07'']"
    by simp
  have fl: "filter (\<lambda>s. CHR ''G'' \<in> set s) [''R05'', ''E11'', ''G05'', ''C07'']
     @ filter (\<lambda>s. CHR ''C'' \<in> set s) [''R05'', ''E11'', ''G05'', ''C07'']
     @ filter (\<lambda>s. CHR ''E'' \<in> set s) [''R05'', ''E11'', ''G05'', ''C07'']
     @ filter (\<lambda>s. CHR ''R'' \<in> set s) [''R05'', ''E11'', ''G05'', ''C07'']
     @ filter (\<lambda>s. CHR ''J'' \<in> set s) [''R05'', ''E11'', ''G05'', ''C07'']
   = [''G05'', ''C07'', ''E11'', ''R05'']"
    by simp
  note inst = print_constellation_blocks [of GPSTIME ?obs, unfolded ids]
  show ?thesis
  proof (rule exE [OF inst])
    fix b
    assume a: "adds (RinexBatch_init GPSTIME) ?obs = Inr b \<and>
        svids b = [''R05'', ''E11'', ''G05'', ''C07''] \<and>
        print b =
          Inr ([], strftime (''> %Y %m %d %H %M %S.%f   0'' @ fmt_3d (length (svids b))) GPSTIME
                   @ [newline]
                   @ concat (map (row b)
                       (block CHR ''G'' b @ block CHR ''C'' b @ block CHR ''E'' b
                        @ block CHR ''R'' b @ block CHR ''J'' b))) \<and>
        (\<forall>ch. map ((!) (svids b)) (block ch b)
               = filter (\<lambda>s. ch \<in> set s) [''R05'', ''E11'', ''G05'', ''C07''])"
    from a have 1: "adds (RinexBatch_init GPSTIME) ?obs = Inr b" by (rule conjunct1)
    from a have 2: "svids b = [''R05'', ''E11'', ''G05'', ''C07'']"
      by (rule conjunct1 [OF conjunct2])
    from a have 3: "\<forall>ch. map ((!) (svids b)) (block ch b)
               = filter (\<lambda>s. ch \<in> set s) [''R05'', ''E11'', ''G05'', ''C07'']"
      by (rule conjunct2 [OF conjunct2 [OF conjunct2]])
    have 4: "map ((!) (svids b))
          (block CHR ''G'' b @ block CHR ''C'' b @ block CHR ''E'' b @ block CHR ''R'' b
           @ block CHR ''J'' b)
          = [''G05'', ''C07'', ''E11'', ''R05'']"
      unfolding map_append spec [OF 3] by (rule fl)
    show ?thesis
      by (rule exI [of _ b]) (intro conjI 1 2 4)
  qed
qed

section \<open>Records below every band threshold\<close>

lemma wf_pipeline_init [simp]: "wf_pipeline pipeline_init"
  by (simp add: wf_pipeline_def pipeline_init_def)

lemma new_batch_wf:
  assumes "wf_pipeline st" and "new_batch (write_end_header st e) e = Inr st2"
  shows "\<exists>b. rinex_batch st2 = Some b \<and> wf_batch b"
proof (cases "rinex_batch st")
  case None
  with assms(2) show ?thesis
    by (auto simp add: new_batch_def write_end_header_def split: option.splits)
next
  case (Some b0)
  with assms(1) have "wf_batch b0" by (simp add: wf_pipeline_def)
  with Some assms(2) show ?thesis
    by (auto simp add: new_batch_def write_end_header_def rbind_eq_Inr
        split: option.splits if_splits)
qed

lemma store_stages:
  assumes "store st v psr svid codeType l d = Inr st'"
  shows "\<exists>s cn b b'.
           py_int (AccumulatedDeltaRangeState v) = Inr s \<and> Cn0DbHz v = Some cn \<and>
           rinex_batch st = Some b \<and>
           add b codeType svid (fmt_3f psr) (fmt_3f cn)
             (fmt_3f (case check_adr_state s of Inl e \<Rightarrow> 0 | Inr ok \<Rightarrow> l)) (fmt_3f d) = Inr b' \<and>
           rinex_batch st' = Some b'"
proof -
  from assms obtain s where s: "py_int (AccumulatedDeltaRangeState v) = Inr s"
    by (auto simp add: store_def rbind_eq_Inr)
  show ?thesis
  proof (cases "check_adr_state s")
    case (Inl e)
    with assms s show ?thesis
      by (auto simp add: store_def rbind_eq_Inr split: option.splits)
  next
    case (Inr ok)
    with assms s show ?thesis
      by (auto simp add: store_def rbind_eq_Inr split: option.splits)
  qed
qed

lemma step_wf:
  assumes "wf_pipeline st" and "step a st v = Inr st'"
  shows "wf_pipeline st'"
proof -
  from step_stages [OF assms(2)] obtain fbn e st2 psr r where
    nb: "new_batch
           (write_end_header
              (st\<lparr>stderr := stderr st @ sync_diagnostics v, fullbiasnanos := Some fbn\<rparr>) e) e
         = Inr st2" and
    r: "(case r of
           Inl d \<Rightarrow> Inr (st2\<lparr>stderr := stderr st2 @ [d]\<rparr>)
         | Inr (svid, codeType, l, d) \<Rightarrow> store st2 v psr svid codeType l d) = Inr st'"
    by blast
  from assms(1)
  have "wf_pipeline (st\<lparr>stderr := stderr st @ sync_diagnostics v, fullbiasnanos := Some fbn\<rparr>)"
    by (simp add: wf_pipeline_def)
  from new_batch_wf [OF this nb] obtain b where b: "rinex_batch st2 = Some b" "wf_batch b"
    by blast
  show ?thesis
  proof (cases r)
    case (Inl d)
    with r b show ?thesis by (auto simp add: wf_pipeline_def)
  next
    case (Inr ob)
    obtain svid codeType l d where ob: "ob = (svid, codeType, l, d)" by (cases ob) auto
    with r Inr have "store st2 v psr svid codeType l d = Inr st'" by simp
    from store_stages [OF this] b obtain x y z w b' where
      "add b codeType svid x y z w = Inr b'" "rinex_batch st' = Some b'"
      by auto
    with add_wf [OF b(2), of codeType svid x y z w] show ?thesis
      by (auto simp add: wf_pipeline_def)
  qed
qed

lemma steps_wf:
  "wf_pipeline st \<Longrightarrow> steps a st vs = Inr st' \<Longrightarrow> wf_pipeline st'"
proof (induction vs arbitrary: st)
  case Nil
  then show ?case by simp
next
  case (Cons v vs)
  from Cons.prems(2) obtain st1 where 1: "step a st v = Inr st1" "steps a st1 vs = Inr st'"
    by (auto simp add: rbind_eq_Inr)
  from step_wf [OF Cons.prems(1) 1(1)] Cons.IH 1(2) show ?case by blast
qed

lemma classify_below_thresholds:
  assumes "py_int (ConstellationType v) = Inr c" and "py_int (Svid v) = Inr prn"
    and "CarrierFrequencyHz v = Some f"
    and "(c = 1 \<or> c = 5 \<or> c = 6) \<and> f \<le> 1100000000 \<or> c = 3 \<and> prn < 93 \<and> f \<le> 1200000000"
  shows "classify psr v =
           Inr (Inr ((if c = 1 then ''G'' else if c = 3 then ''R'' else if c = 6 then ''E''
                      else ''C'') @ fmt_02d prn, [], 0, 0))"
  using assms
  by (auto simp add: classify_def carrier_frequency_def constellation_consts Let_def)

lemma add_secondary:
  assumes "wf_batch b" and "\<not> is_primary codeType"
    and "add b codeType svid c1v s1v l1v d1v = Inr b'"
  shows "wf_batch b' \<and>
         (\<exists>i < length (svids b'). svids b' ! i = svid \<and> c2 b' ! i = c1v \<and> s2 b' ! i = s1v \<and>
            l2 b' ! i = l1v \<and> d2 b' ! i = d1v)"
proof -
  from add_wf [OF assms(1), of codeType svid c1v s1v l1v d1v] assms(3)
  have wf: "wf_batch b'" by auto
  have "\<exists>i < length (svids b'). svids b' ! i = svid \<and> c2 b' ! i = c1v \<and> s2 b' ! i = s1v \<and>
            l2 b' ! i = l1v \<and> d2 b' ! i = d1v"
  proof (cases "find_svid svid (svids b) 0")
    case None
    with assms have b': "b' = b\<lparr>svids := svids b @ [svid],
                   c1 := c1 b @ [[]], s1 := s1 b @ [[]], l1 := l1 b @ [[]], d1 := d1 b @ [[]],
                   c2 := c2 b @ [c1v], s2 := s2 b @ [s1v], l2 := l2 b @ [l1v], d2 := d2 b @ [d1v]\<rparr>"
      by (simp add: add_def)
    from assms(1) have len: "length (c2 b) = length (svids b)" "length (s2 b) = length (svids b)"
      "length (l2 b) = length (svids b)" "length (d2 b) = length (svids b)"
      by (simp_all add: wf_batch_def)
    have "length (svids b) < length (svids b') \<and> svids b' ! length (svids b) = svid \<and>
          c2 b' ! length (svids b) = c1v \<and> s2 b' ! length (svids b) = s1v \<and>
          l2 b' ! length (svids b) = l1v \<and> d2 b' ! length (svids b) = d1v"
      unfolding b' using len by (simp add: nth_append)
    then show ?thesis by blast
  next
    case (Some i)
    from find_svid_Some [OF Some] have i: "i < length (svids b)" "svids b ! i = svid" by simp_all
    from assms(1) i(1) have len: "i < length (c2 b)" "i < length (s2 b)"
      "i < length (l2 b)" "i < length (d2 b)"
      by (simp_all add: wf_batch_def)
    with Some assms have b': "b' = b\<lparr>c2 := (c2 b)[i := c1v], s2 := (s2 b)[i := s1v],
                                         l2 := (l2 b)[i := l1v], d2 := (d2 b)[i := d1v]\<rparr>"
      by (simp add: add_def set_item_def)
    have "i < length (svids b') \<and> svids b' ! i = svid \<and> c2 b' ! i = c1v \<and> s2 b' ! i = s1v \<and>
          l2 b' ! i = l1v \<and> d2 b' ! i = d1v"
      unfolding b' using i len by simp
    then show ?thesis by blast
  qed
  with wf show ?thesis by blast
qed

lemma below_thresholds_row:
  assumes "steps a pipeline_init vs = Inr st"
    and "step a st v = Inr st'"
    and "py_int (ConstellationType v) = Inr c" and "py_int (Svid v) = Inr prn"
    and "CarrierFrequencyHz v = Some f"
    and "(c = 1 \<or> c = 5 \<or> c = 6) \<and> f \<le> 1100000000 \<or> c = 3 \<and> prn < 93 \<and> f \<le> 1200000000"
  shows "\<exists>fbn sow psr cn b i svid.
           update_fullbiasnanos a (fullbiasnanos st) v = Inr fbn \<and> gpssow fbn v = Inr sow \<and>
           pseudorange a fbn (frac a sow) v = Inr psr \<and> Cn0DbHz v = Some cn \<and>
           svid = (if c = 1 then ''G'' else if c = 3 then ''R'' else if c = 6 then ''E''
                   else ''C'') @ fmt_02d prn \<and>
           classify psr v = Inr (Inr (svid, [], 0, 0)) \<and>
           rinex_batch st' = Some b \<and> i < length (svids b) \<and> svids b ! i = svid \<and>
           c2 b ! i = fmt_3f psr \<and> l2 b ! i = ''0.000'' \<and> d2 b ! i = ''0.000'' \<and>
           s2 b ! i = fmt_3f cn \<and>
           data_line b i =
             Inr (ljust 5 svid @ rjust 12 (c1 b ! i) @ ''  '' @ rjust 14 (l1 b ! i) @ ''  ''
                  @ rjust 14 (d1 b ! i) @ ''  '' @ rjust 14 (s1 b ! i) @ ''  ''
                  @ rjust 14 (fmt_3f psr) @ ''  '' @ rjust 14 ''0.000'' @ ''  ''
                  @ rjust 14 ''0.000'' @ ''  '' @ rjust 14 (fmt_3f cn) @ [newline])"
proof -
  let ?svid = "(if c = 1 then ''G'' else if c = 3 then ''R'' else if c = 6 then ''E''
                else ''C'') @ fmt_02d prn"
  from steps_wf [OF wf_pipeline_init assms(1)] have wf: "wf_pipeline st" .
  from step_stages [OF assms(2)] obtain fbn sow e st2 psr r where
    fbn: "update_fullbiasnanos a (fullbiasnanos st) v = Inr fbn" and
    sow: "gpssow fbn v = Inr sow" and
    nb: "new_batch
           (write_end_header
              (st\<lparr>stderr := stderr st @ sync_diagnostics v, fullbiasnanos := Some fbn\<rparr>) e) e
         = Inr st2" and
    psr: "pseudorange a fbn (frac a sow) v = Inr psr" and
    cl: "classify psr v = Inr r" and
    r: "(case r of
           Inl d \<Rightarrow> Inr (st2\<lparr>stderr := stderr st2 @ [d]\<rparr>)
         | Inr (svid, codeType, l, d) \<Rightarrow> store st2 v psr svid codeType l d) = Inr st'"
    by blast
  from wf
  have "wf_pipeline (st\<lparr>stderr := stderr st @ sync_diagnostics v, fullbiasnanos := Some fbn\<rparr>)"
    by (simp add: wf_pipeline_def)
  from new_batch_wf [OF this nb] obtain b2 where b2: "rinex_batch st2 = Some b2" "wf_batch b2"
    by blast
  have cl': "classify psr v = Inr (Inr (?svid, [], 0, 0))"
    by (rule classify_below_thresholds [OF assms(3-6)])
  with cl have "r = Inr (?svid, [], 0, 0)" by simp
  with r have "store st2 v psr ?svid [] 0 0 = Inr st'" by simp
  from store_stages [OF this] b2(1) obtain s cn b where
    cn: "Cn0DbHz v = Some cn" and
    ad: "add b2 [] ?svid (fmt_3f psr) (fmt_3f cn)
           (fmt_3f (case check_adr_state s of Inl e \<Rightarrow> 0 | Inr ok \<Rightarrow> 0)) (fmt_3f 0) = Inr b" and
    b: "rinex_batch st' = Some b"
    by auto
  have z: "fmt_3f (case check_adr_state s of Inl e \<Rightarrow> 0 | Inr ok \<Rightarrow> 0) = ''0.000''"
    by (simp add: fmt_3f_examples(1) split: sum.split)
  have np: "\<not> is_primary []" by (simp add: is_primary_def)
  from add_secondary [OF b2(2) np ad] obtain i where
    wfb: "wf_batch b" and i: "i < length (svids b)" "svids b ! i = ?svid"
    "c2 b ! i = fmt_3f psr" "s2 b ! i = fmt_3f cn" "l2 b ! i = ''0.000''" "d2 b ! i = ''0.000''"
    unfolding z fmt_3f_examples(1) by blast
  have dl: "data_line b i =
             Inr (ljust 5 ?svid @ rjust 12 (c1 b ! i) @ ''  '' @ rjust 14 (l1 b ! i) @ ''  ''
                  @ rjust 14 (d1 b ! i) @ ''  '' @ rjust 14 (s1 b ! i) @ ''  ''
                  @ rjust 14 (fmt_3f psr) @ ''  '' @ rjust 14 ''0.000'' @ ''  ''
                  @ rjust 14 ''0.000'' @ ''  '' @ rjust 14 (fmt_3f cn) @ [newline])"
    unfolding data_line_wf [OF wfb i(1)] row_def i(2-) ..
  from fbn sow psr cn cl' b i dl show ?thesis by blast
qed

lemma new_batch_total:
  assumes "wf_pipeline st"
  shows "\<exists>st2. new_batch (write_end_header st e) e = Inr st2"
proof (cases "rinex_batch st")
  case None
  then show ?thesis
    by (simp add: new_batch_def write_end_header_def split: option.split)
next
  case (Some b)
  with assms have "wf_batch b" by (simp add: wf_pipeline_def)
  from print_wf [OF this] obtain printed where "print b = Inr ([], printed)" by blast
  with Some show ?thesis
    by (simp add: new_batch_def write_end_header_def split: option.split)
qed

lemma store_total:
  assumes "rinex_batch st = Some b" and "wf_batch b"
    and "AccumulatedDeltaRangeState v = Some s" and "Cn0DbHz v = Some cn"
  shows "\<exists>st'. store st v psr svid codeType l d = Inr st'"
proof -
  let ?l = "case check_adr_state (py_trunc s) of Inl e \<Rightarrow> 0 | Inr ok \<Rightarrow> l"
  from add_wf [OF assms(2), of codeType svid "fmt_3f psr" "fmt_3f cn" "fmt_3f ?l" "fmt_3f d"]
  obtain b' where "add b codeType svid (fmt_3f psr) (fmt_3f cn) (fmt_3f ?l) (fmt_3f d) = Inr b'"
    by blast
  with assms(1,3,4) show ?thesis
    by (cases "check_adr_state (py_trunc s)") (simp_all add: store_def)
qed

text \<open>
  C10. In the modern converter, let a record arrive after any lines already processed,
  with a supported constellation and a carrier frequency below every band threshold of
  it (GPS, BeiDou or Galileo and at most 1100 MHz, or GLONASS with a PRN below 93 and at
  most 1200 MHz). If the fields that the iteration reads are present and the epoch is a
  date that \<^verbatim>\<open>datetime\<close> can hold, the iteration does not raise and does not skip the
  record: it is classified with the empty band code, phase 0 and Doppler 0, and the batch
  holds a row for its satellite id whose second-band columns are the formatted range,
  \<open>0.000\<close>, \<open>0.000\<close> and the formatted signal strength; the data line of that row shows
  them in its last four columns.
\<close>

theorem below_thresholds_stored_in_second_band:
  assumes "steps a pipeline_init vs = Inr st"
    and "update_fullbiasnanos a (fullbiasnanos st) v = Inr fbn" and "gpssow fbn v = Inr sow"
    and "gpstime_to_epoch (gpsweek fbn) (sow - frac a sow) = Inr e"
    and "pseudorange a fbn (frac a sow) v = Inr psr"
    and "AccumulatedDeltaRangeState v = Some s" and "Cn0DbHz v = Some cn"
    and "py_int (ConstellationType v) = Inr c" and "py_int (Svid v) = Inr prn"
    and "CarrierFrequencyHz v = Some f"
    and "(c = 1 \<or> c = 5 \<or> c = 6) \<and> f \<le> 1100000000 \<or> c = 3 \<and> prn < 93 \<and> f \<le> 1200000000"
  shows "\<exists>st' b i svid.
           step a st v = Inr st' \<and>
           svid = (if c = 1 then ''G'' else if c = 3 then ''R'' else if c = 6 then ''E''
                   else ''C'') @ fmt_02d prn \<and>
           classify psr v = Inr (Inr (svid, [], 0, 0)) \<and>
           rinex_batch st' = Some b \<and> i < length (svids b) \<and> svids b ! i = svid \<and>
           c2 b ! i = fmt_3f psr \<and> l2 b ! i = ''0.000'' \<and> d2 b ! i = ''0.000'' \<and>
           s2 b ! i = fmt_3f cn \<and>
           data_line b i =
             Inr (ljust 5 svid @ rjust 12 (c1 b ! i) @ ''  '' @ rjust 14 (l1 b ! i) @ ''  ''
                  @ rjust 14 (d1 b ! i) @ ''  '' @ rjust 14 (s1 b ! i) @ ''  ''
                  @ rjust 14 (fmt_3f psr) @ ''  '' @ rjust 14 ''0.000'' @ ''  ''
                  @ rjust 14 ''0.000'' @ ''  '' @ rjust 14 (fmt_3f cn) @ [newline])"
proof -
  let ?svid = "(if c = 1 then ''G'' else if c = 3 then ''R'' else if c = 6 then ''E''
                else ''C'') @ fmt_02d prn"
  let ?st1 = "st\<lparr>stderr := stderr st @ sync_diagnostics v, fullbiasnanos := Some fbn\<rparr>"
  from steps_wf [OF wf_pipeline_init assms(1)] have "wf_pipeline st" .
  then have wf1: "wf_pipeline ?st1" by (simp add: wf_pipeline_def)
  from new_batch_total [OF wf1, of e] obtain st2 where
    nb: "new_batch (write_end_header ?st1 e) e = Inr st2" by blast
  from new_batch_wf [OF wf1 nb] obtain b2 where b2: "rinex_batch st2 = Some b2" "wf_batch b2"
    by blast
  have cl: "classify psr v = Inr (Inr (?svid, [], 0, 0))"
    by (rule classify_below_thresholds [OF assms(8-11)])
  from store_total [OF b2 assms(6,7), of psr ?svid "[]" 0 0] obtain st' where
    st: "store st2 v psr ?svid [] 0 0 = Inr st'" by blast
  have step: "step a st v = Inr st'"
    unfolding step_eval [OF assms(2,3,4) nb assms(5)] cl
    by (simp only: rbind_Inr sum.case prod.case st)
  from below_thresholds_row [OF assms(1) step assms(8-11)] assms(2,3,5,7) step cl
  show ?thesis by auto
qed

theorem below_thresholds_stored_in_second_band_witness:
  "steps example_args pipeline_init [] = Inr pipeline_init \<and>
   update_fullbiasnanos example_args (fullbiasnanos pipeline_init)
       (example_gps\<lparr>CarrierFrequencyHz := Some 1000000000\<rparr>) = Inr (- 1300000000000000000) \<and>
   gpssow (- 1300000000000000000) (example_gps\<lparr>CarrierFrequencyHz := Some 1000000000\<rparr>)
     = Inr 284805 \<and>
   gpstime_to_epoch (gpsweek (- 1300000000000000000)) (284805 - frac example_args 284805)
     = Inr 63751561605000000 \<and>
   pseudorange example_args (- 1300000000000000000) (frac example_args 284805)
       (example_gps\<lparr>CarrierFrequencyHz := Some 1000000000\<rparr>) = Inr 22484434.35 \<and>
   (\<exists>st' b i.
      step example_args pipeline_init (example_gps\<lparr>CarrierFrequencyHz := Some 1000000000\<rparr>)
        = Inr st' \<and>
      classify 22484434.35 (example_gps\<lparr>CarrierFrequencyHz := Some 1000000000\<rparr>)
        = Inr (Inr (''G05'', [], 0, 0)) \<and>
      rinex_batch st' = Some b \<and> i < length (svids b) \<and> svids b ! i = ''G05'' \<and>
      c2 b ! i = ''22484434.350'' \<and> l2 b ! i = ''0.000'' \<and> d2 b ! i = ''0.000'' \<and>
      s2 b ! i = ''35.200'')"
proof -
  let ?v = "example_gps\<lparr>CarrierFrequencyHz := Some 1000000000\<rparr>"
  let ?F = "- 1300000000000000000 :: real"
  let ?E = "63751561605000000 :: nat"
  have s0: "steps example_args pipeline_init [] = Inr pipeline_init" by simp
  have fb: "update_fullbiasnanos example_args (fullbiasnanos pipeline_init) ?v = Inr ?F"
    by (simp add: update_fullbiasnanos_def pipeline_init_def example_gps_def)
  have sw: "gpssow ?F ?v = Inr 284805"
    by (simp add: gpssow_def gpsweek_def example_gps_def time_consts)
  have fr: "frac example_args 284805 = 0"
    by (simp add: frac_def example_args_def)
  have ep: "gpstime_to_epoch (gpsweek ?F) (284805 - frac example_args 284805) = Inr ?E"
    unfolding fr
    by (simp add: gpstime_to_epoch_def gpsweek_def GPSTIME_def DATETIME_MAX_US_def py_trunc_def
        time_consts)
  have ps: "pseudorange example_args ?F (frac example_args 284805) ?v = Inr 22484434.35"
    unfolding fr
    by (simp add: eval_range example_gps_def example_args_def py_trunc_def time_consts
        constellation_consts)
  have ad: "AccumulatedDeltaRangeState ?v = Some 1" and cn: "Cn0DbHz ?v = Some 35.2"
    and c: "py_int (ConstellationType ?v) = Inr 1" and prn: "py_int (Svid ?v) = Inr 5"
    and f: "CarrierFrequencyHz ?v = Some 1000000000"
    by (simp_all add: example_gps_def py_trunc_def)
  have cond: "((1::int) = 1 \<or> (1::int) = 5 \<or> (1::int) = 6) \<and> (1000000000::real) \<le> 1100000000 \<or>
              (1::int) = 3 \<and> (5::int) < 93 \<and> (1000000000::real) \<le> 1200000000"
    by simp
  have id: "(if (1::int) = 1 then ''G'' else if (1::int) = 3 then ''R''
             else if (1::int) = 6 then ''E'' else ''C'') @ fmt_02d 5 = ''G05''"
    by (simp add: eval_svid)
  from below_thresholds_stored_in_second_band [OF s0 fb sw ep ps ad cn c prn f cond]
  have "\<exists>st' b i.
      step example_args pipeline_init ?v = Inr st' \<and>
      classify 22484434.35 ?v = Inr (Inr (''G05'', [], 0, 0)) \<and>
      rinex_batch st' = Some b \<and> i < length (svids b) \<and> svids b ! i = ''G05'' \<and>
      c2 b ! i = ''22484434.350'' \<and> l2 b ! i = ''0.000'' \<and> d2 b ! i = ''0.000'' \<and>
      s2 b ! i = ''35.200''"
    unfolding id fmt_3f_examples by blast
  with s0 fb sw ep ps show ?thesis by (intro conjI)
qed

end
